theory Spec2Isabelle
  imports Main
begin

section \<open>The SeleniumWebdriver helper: locators, smart wait and scoped search\<close>

text \<open>
  A shallow embedding of \<^verbatim>\<open>lib/helper/SeleniumWebdriver.js\<close> and
  \<^verbatim>\<open>lib/helper/errors/ElementNotFound.js\<close>. The helper is a JavaScript class
  whose methods mutate the helper object, the browser object and the module-level variable
  \<^verbatim>\<open>withinStore\<close>, and talk to a WebDriver session. Here every method takes the
  state and returns its outcome together with the new state. The methods
  \<^verbatim>\<open>_locate\<close>, \<^verbatim>\<open>_smartWait\<close>, \<^verbatim>\<open>_withinBegin\<close>,
  \<^verbatim>\<open>_withinEnd\<close> and \<^verbatim>\<open>_failed\<close> are named without their leading
  underscore, which a name cannot start with here.
\<close>

subsection \<open>Values\<close>

text \<open>An element handle of the driver.\<close>

type_synonym elem = nat

text \<open>
  A locator as a caller passes it: a string, or an object with one key
  (\<^verbatim>\<open>{css: '#a'}\<close>, \<^verbatim>\<open>{name: 'password'}\<close>).
\<close>

datatype raw_locator = Str string | Obj string string

text \<open>
  The object \<^verbatim>\<open>new Locator(locator)\<close>: its \<^verbatim>\<open>type\<close> (absent when
  \<open>None\<close>), its \<^verbatim>\<open>value\<close> and the answer of \<^verbatim>\<open>isFuzzy()\<close>.
\<close>

record Locator =
  ltype :: "string option"
  lvalue :: string
  fuzzy :: bool

text \<open>
  A query object of the driver library, \<^verbatim>\<open>global.by[kind](operand)\<close>. The operand is
  whatever JavaScript value the code passes: \<^verbatim>\<open>global.by.css(locator)\<close> is handed the
  caller's locator as it came.
\<close>

datatype locator_by = By string raw_locator

text \<open>
  JavaScript errors: a \<^verbatim>\<open>TypeError\<close>, a plain \<^verbatim>\<open>Error\<close> with its message (what
  \<^verbatim>\<open>ElementNotFound\<close> throws), a failed assertion, and an error of the driver with
  its \<^verbatim>\<open>type\<close> (or name) and message.
\<close>

datatype error =
    TypeError string
  | Error string
  | AssertionFailed string
  | DriverError string string

fun err_type :: "error \<Rightarrow> string option" where
  "err_type (DriverError t m) = Some t"
| "err_type e = None"

fun err_message :: "error \<Rightarrow> string" where
  "err_message (TypeError m) = m"
| "err_message (Error m) = m"
| "err_message (AssertionFailed m) = m"
| "err_message (DriverError t m) = m"

text \<open>
  How a call ends. A JavaScript call either throws on the spot or returns; what the
  helper's calls return are promises, which resolve to a value or are rejected with an
  error. The model is sequential (section 5 of the specification: one task, program
  order), so a returned promise is already settled.
\<close>

datatype 'a outcome = Threw error | Rejected error | Resolved 'a

text \<open>
  The result of an \<^verbatim>\<open>async\<close> function whose body ends with the given outcome: an
  exception inside the body rejects the promise the function returns.
\<close>

fun settle :: "'a outcome \<Rightarrow> 'a outcome" where
  "settle (Threw e) = Rejected e"
| "settle (Rejected e) = Rejected e"
| "settle (Resolved v) = Resolved v"

text \<open>Where a driver query searches: the whole document, or below an element.\<close>

datatype root = Document | Within elem

text \<open>
  The value of \<^verbatim>\<open>browser.findElement\<close> or \<^verbatim>\<open>browser.findElements\<close>: the driver's
  own method, the closure \<^verbatim>\<open>(l) => context.findElement(l)\<close> (or
  \<^verbatim>\<open>(l) => context.findElements(l)\<close>) that \<^verbatim>\<open>_withinBegin\<close> installs for the
  element \<^verbatim>\<open>context\<close>, or \<^verbatim>\<open>undefined\<close>.
\<close>

datatype find_fn = Undefined | DriverFn | ScopedFn elem

text \<open>Commands sent to the driver, in the order the helper issues them.\<close>

datatype call =
    FindElement root "locator_by option"
  | FindElements root "locator_by option"
  | ImplicitlyWait int
  | IsSelected elem
  | Clear elem
  | SendKeys elem string
  | GetText elem
  | SaveScreenshot string bool

text \<open>
  The module-level \<^verbatim>\<open>withinStore\<close> object: each of its two keys is absent (\<open>None\<close>)
  or holds a value. \<^verbatim>\<open>{}\<close> is \<open>empty_store\<close>.
\<close>

record within_store =
  elFn :: "find_fn option"
  elsFn :: "find_fn option"

definition empty_store :: within_store where
  "empty_store = \<lparr>elFn = None, elsFn = None\<rparr>"

text \<open>\<^verbatim>\<open>Object.keys(withinStore).length\<close>\<close>

definition store_keys :: "within_store \<Rightarrow> nat" where
  "store_keys st =
     (case elFn st of None \<Rightarrow> 0 | Some a \<Rightarrow> 1) + (case elsFn st of None \<Rightarrow> 0 | Some b \<Rightarrow> 1)"

text \<open>Reading a property of an object: \<^verbatim>\<open>undefined\<close> when the key is absent.\<close>

fun prop_get :: "find_fn option \<Rightarrow> find_fn" where
  "prop_get None = Undefined"
| "prop_get (Some f) = f"

text \<open>The fields of \<^verbatim>\<open>this.options\<close> that the modelled methods read.\<close>

record options =
  opt_smartWait :: int
  rootElement :: raw_locator
  disableScreenshots :: bool
  uniqueScreenshotNames :: bool

text \<open>
  The mutable state: the helper's fields, the two rebindable methods of
  \<^verbatim>\<open>this.browser\<close>, \<^verbatim>\<open>withinStore\<close>, the implicit-wait timeout last set in the
  driver session, and the commands issued so far.
\<close>

record state =
  options :: options
  cur_context :: raw_locator
  isRunning :: bool
  browser_findElement :: find_fn
  browser_findElements :: find_fn
  withinStore :: within_store
  implicitWait :: int
  calls :: "call list"

text \<open>The argument of \<^verbatim>\<open>_failed\<close>: a test, with \<^verbatim>\<open>test.ctx.test\<close> when there is one.\<close>

record ctx_test =
  t_type :: string
  t_title :: string
  t_uuid :: "string option"

record test =
  title :: string
  uuid :: "string option"
  ctx_test :: "ctx_test option"

subsection \<open>What the helper is given\<close>

text \<open>
  The helper's collaborators are not part of the two files: the \<^verbatim>\<open>Locator\<close> class and
  the XPath builders of \<^verbatim>\<open>lib/locator.js\<close>, \<^verbatim>\<open>xpathLocator.literal\<close> and
  \<^verbatim>\<open>clearString\<close> of \<^verbatim>\<open>lib/utils.js\<close>, the driver library's
  \<^verbatim>\<open>By\<close> namespace (\<^verbatim>\<open>global.by\<close>) and the driver session itself. They are
  parameters: every function below takes them in an environment, and every theorem holds
  for all of them.

  The driver answers a query with an outcome; the answer depends on the search root and
  the query only. \<open>null_Locator\<close> is the object \<^verbatim>\<open>new Locator(null)\<close>.
\<close>

record env =
  new_Locator :: "raw_locator \<Rightarrow> Locator"
  Locator_toString :: "Locator \<Rightarrow> string"
  by_has :: "string \<Rightarrow> bool"
  literal :: "raw_locator \<Rightarrow> string"
  field_labelEquals :: "string \<Rightarrow> string"
  field_labelContains :: "string \<Rightarrow> string"
  field_byName :: "string \<Rightarrow> string"
  checkable_byText :: "string \<Rightarrow> string"
  checkable_byName :: "string \<Rightarrow> string"
  clickable_narrow :: "string \<Rightarrow> string"
  clickable_wide :: "string \<Rightarrow> string"
  clearString :: "string \<Rightarrow> string"
  drv_findElement :: "root \<Rightarrow> locator_by option \<Rightarrow> elem outcome"
  drv_findElements :: "root \<Rightarrow> locator_by option \<Rightarrow> elem list outcome"
  drv_isSelected :: "elem \<Rightarrow> bool outcome"
  drv_clear :: "elem \<Rightarrow> unit outcome"
  drv_sendKeys :: "elem \<Rightarrow> string \<Rightarrow> unit outcome"
  drv_saveScreenshot :: "string \<Rightarrow> bool \<Rightarrow> unit outcome"
  drv_getText :: "elem \<Rightarrow> string outcome"
  null_Locator :: Locator

subsection \<open>Driver calls\<close>

definition issue :: "call \<Rightarrow> state \<Rightarrow> state" where
  "issue c s = s\<lparr>calls := calls s @ [c]\<rparr>"

text \<open>\<^verbatim>\<open>this.browser.manage().timeouts().implicitlyWait(ms)\<close>\<close>

definition implicitlyWait :: "int \<Rightarrow> state \<Rightarrow> state" where
  "implicitlyWait ms s = issue (ImplicitlyWait ms) (s\<lparr>implicitWait := ms\<rparr>)"

text \<open>
  Calling a value as a find function with the argument \<open>q\<close> (\<open>None\<close> is the
  JavaScript value \<^verbatim>\<open>false\<close>): calling \<^verbatim>\<open>undefined\<close> throws.
\<close>

definition call_findElement ::
  "env \<Rightarrow> find_fn \<Rightarrow> locator_by option \<Rightarrow> state \<Rightarrow> elem outcome \<times> state" where
  "call_findElement E f q s =
     (case f of
        Undefined \<Rightarrow> (Threw (TypeError ''findElement is not a function''), s)
      | DriverFn \<Rightarrow> (drv_findElement E Document q, issue (FindElement Document q) s)
      | ScopedFn c \<Rightarrow> (drv_findElement E (Within c) q, issue (FindElement (Within c) q) s))"

definition call_findElements ::
  "env \<Rightarrow> find_fn \<Rightarrow> locator_by option \<Rightarrow> state \<Rightarrow> elem list outcome \<times> state" where
  "call_findElements E f q s =
     (case f of
        Undefined \<Rightarrow> (Threw (TypeError ''findElements is not a function''), s)
      | DriverFn \<Rightarrow> (drv_findElements E Document q, issue (FindElements Document q) s)
      | ScopedFn c \<Rightarrow> (drv_findElements E (Within c) q, issue (FindElements (Within c) q) s))"

text \<open>
  The object a search is started on: \<^verbatim>\<open>this.browser\<close>, whose two methods are the
  rebindable fields of the state, or an element.
\<close>

datatype matcher = Browser | Element elem

definition findElement_on ::
  "env \<Rightarrow> matcher \<Rightarrow> locator_by option \<Rightarrow> state \<Rightarrow> elem outcome \<times> state" where
  "findElement_on E m q s =
     (case m of
        Browser \<Rightarrow> call_findElement E (browser_findElement s) q s
      | Element c \<Rightarrow> call_findElement E (ScopedFn c) q s)"

definition findElements_on ::
  "env \<Rightarrow> matcher \<Rightarrow> locator_by option \<Rightarrow> state \<Rightarrow> elem list outcome \<times> state" where
  "findElements_on E m q s =
     (case m of
        Browser \<Rightarrow> call_findElements E (browser_findElements s) q s
      | Element c \<Rightarrow> call_findElements E (ScopedFn c) q s)"

text \<open>
  \<^verbatim>\<open>await\<close> inside an \<^verbatim>\<open>async\<close> function: the body goes on with the value, and a
  failure of the awaited call, thrown or rejected, rejects the function's promise.
\<close>

definition await ::
  "'a outcome \<times> state \<Rightarrow> ('a \<Rightarrow> state \<Rightarrow> 'b outcome \<times> state) \<Rightarrow> 'b outcome \<times> state" where
  "await m k =
     (case m of
        (Resolved v, s) \<Rightarrow> k v s
      | (Rejected e, s) \<Rightarrow> (Rejected e, s)
      | (Threw e, s) \<Rightarrow> (Rejected e, s))"

text \<open>\<^verbatim>\<open>return p\<close> at the end of an \<^verbatim>\<open>async\<close> function.\<close>

definition async_return :: "'a outcome \<times> state \<Rightarrow> 'a outcome \<times> state" where
  "async_return m = (settle (fst m), snd m)"

subsection \<open>guessLocator, _smartWait, _locate\<close>

text \<open>
  \<^verbatim>\<open>guessLocator\<close> returns \<^verbatim>\<open>false\<close> (\<open>None\<close>) for a fuzzy locator and for one
  with no type (an absent or empty type is falsy); otherwise it calls
  \<^verbatim>\<open>global.by[l.type]\<close>, which throws when the driver library has no such method.
\<close>

definition guessLocator :: "env \<Rightarrow> raw_locator \<Rightarrow> error + locator_by option" where
  "guessLocator E locator =
     (let l = new_Locator E locator in
      if fuzzy l then Inr None
      else (case ltype l of
              None \<Rightarrow> Inr None
            | Some t \<Rightarrow>
                if t = [] then Inr None
                else if by_has E t then Inr (Some (By t (Str (lvalue l))))
                else Inl (TypeError ''global.by[l.type] is not a function'')))"

text \<open>\<^verbatim>\<open>guessLocator(locator) || global.by.css(locator)\<close>\<close>

definition guess_or_css :: "env \<Rightarrow> raw_locator \<Rightarrow> error + locator_by option" where
  "guess_or_css E locator =
     (case guessLocator E locator of
        Inl e \<Rightarrow> Inl e
      | Inr None \<Rightarrow> Inr (Some (By ''css'' locator))
      | Inr (Some b) \<Rightarrow> Inr (Some b))"

text \<open>
  \<^verbatim>\<open>_smartWait(fn, enabled)\<close>. With the option unset (\<open>0\<close>) or the call's flag off it
  is just \<^verbatim>\<open>fn()\<close>. Otherwise the timeout is set, \<^verbatim>\<open>fn\<close> is called and the timeout
  is set back to \<open>0\<close>; the three statements follow each other with no
  \<^verbatim>\<open>try\<close>/\<^verbatim>\<open>finally\<close>, so when \<^verbatim>\<open>fn()\<close> throws, the method is left at that
  statement. (\<^verbatim>\<open>debugSection\<close> only prints.)
\<close>

definition smartWait ::
  "(state \<Rightarrow> 'a outcome \<times> state) \<Rightarrow> bool \<Rightarrow> state \<Rightarrow> 'a outcome \<times> state" where
  "smartWait fn enabled s =
     (if opt_smartWait (options s) = 0 \<or> \<not> enabled then async_return (fn s)
      else
        (let s1 = implicitlyWait (opt_smartWait (options s)) s;
             (res, s2) = fn s1
         in case res of
              Threw e \<Rightarrow> (Rejected e, s2)
            | Rejected e \<Rightarrow> (Rejected e, implicitlyWait 0 s2)
            | Resolved v \<Rightarrow> (Resolved v, implicitlyWait 0 s2)))"

text \<open>The arrow function \<^verbatim>\<open>() => this.browser.findElements(guessLocator(locator))\<close>\<close>

definition locate_fn :: "env \<Rightarrow> raw_locator \<Rightarrow> state \<Rightarrow> elem list outcome \<times> state" where
  "locate_fn E locator s =
     (case guessLocator E locator of
        Inl e \<Rightarrow> (Threw e, s)
      | Inr q \<Rightarrow> findElements_on E Browser q s)"

text \<open>\<^verbatim>\<open>_locate(locator, smartWait)\<close>\<close>

definition locate :: "env \<Rightarrow> raw_locator \<Rightarrow> bool \<Rightarrow> state \<Rightarrow> elem list outcome \<times> state" where
  "locate E locator sw s = async_return (smartWait (locate_fn E locator) sw s)"

subsection \<open>The scope: _withinBegin, _withinEnd, _failed\<close>

text \<open>
  \<^verbatim>\<open>_withinBegin(locator)\<close> saves the browser's two methods in \<^verbatim>\<open>withinStore\<close> and
  sets \<^verbatim>\<open>this.context\<close> before it searches; the methods are rebound in the
  \<^verbatim>\<open>then\<close> callback, so only when \<^verbatim>\<open>findElement\<close> resolved. The method is not
  \<^verbatim>\<open>async\<close>: an exception of \<^verbatim>\<open>guessLocator\<close> or of the call is thrown to the
  caller, and a rejection of the driver is the rejection of the promise returned.
\<close>

definition withinBegin :: "env \<Rightarrow> raw_locator \<Rightarrow> state \<Rightarrow> elem outcome \<times> state" where
  "withinBegin E locator s =
     (let s1 = s\<lparr>withinStore :=
                   \<lparr>elFn = Some (browser_findElement s), elsFn = Some (browser_findElements s)\<rparr>,
                 cur_context := locator\<rparr>
      in case guess_or_css E locator of
           Inl e \<Rightarrow> (Threw e, s1)
         | Inr q \<Rightarrow>
             (case findElement_on E Browser q s1 of
                (Resolved c, s2) \<Rightarrow>
                  (Resolved c, s2\<lparr>browser_findElement := ScopedFn c,
                                  browser_findElements := ScopedFn c\<rparr>)
              | (Rejected e, s2) \<Rightarrow> (Rejected e, s2)
              | (Threw e, s2) \<Rightarrow> (Threw e, s2)))"

text \<open>\<^verbatim>\<open>_withinEnd()\<close>\<close>

definition withinEnd :: "state \<Rightarrow> state" where
  "withinEnd s =
     s\<lparr>browser_findElement := prop_get (elFn (withinStore s)),
       browser_findElements := prop_get (elsFn (withinStore s)),
       withinStore := empty_store,
       cur_context := rootElement (options s)\<rparr>"

text \<open>
  \<^verbatim>\<open>saveScreenshot(fileName, fullPage)\<close> writes a file from what the driver returns; it
  reads and writes no field of the state above. It is kept as one command with the
  outcome the environment gives it. The method is \<^verbatim>\<open>async\<close>.
\<close>

definition saveScreenshot :: "env \<Rightarrow> string \<Rightarrow> bool \<Rightarrow> state \<Rightarrow> unit outcome \<times> state" where
  "saveScreenshot E fileName fullPage s =
     (settle (drv_saveScreenshot E fileName fullPage), issue (SaveScreenshot fileName fullPage) s)"

text \<open>\<^verbatim>\<open>haystack.indexOf(needle) > -1\<close>\<close>

fun str_includes :: "string \<Rightarrow> string \<Rightarrow> bool" where
  "str_includes [] needle = (needle = [])"
| "str_includes (c # cs) needle = (take (length needle) (c # cs) = needle \<or> str_includes cs needle)"

text \<open>A string is truthy when it is there and not empty.\<close>

fun truthy :: "string option \<Rightarrow> bool" where
  "truthy None = False"
| "truthy (Some u) = (u \<noteq> [])"

text \<open>A value inside a template literal.\<close>

fun template :: "string option \<Rightarrow> string" where
  "template None = ''undefined''"
| "template (Some u) = u"

text \<open>
  The name of the screenshot file in \<^verbatim>\<open>_failed\<close>. \<^verbatim>\<open>test.ctx.test.uuid\<close> is read
  only when \<^verbatim>\<open>test.uuid\<close> is falsy, and throws when the test has no
  \<^verbatim>\<open>ctx.test\<close>.
\<close>

definition failed_fileName :: "env \<Rightarrow> options \<Rightarrow> test \<Rightarrow> error + string" where
  "failed_fileName E opts t =
     (let fileName =
            (case ctx_test t of
               None \<Rightarrow> clearString E (title t)
             | Some ct \<Rightarrow>
                 if t_type ct = ''hook'' then clearString E (title t @ ''_'' @ t_title ct)
                 else clearString E (title t))
      in if uniqueScreenshotNames opts then
           (if truthy (uuid t) then
              Inr (take 10 fileName @ ''_'' @ template (uuid t) @ ''.failed.png'')
            else
              (case ctx_test t of
                 None \<Rightarrow> Inl (TypeError ''Cannot read property test of undefined'')
               | Some ct \<Rightarrow>
                   Inr (take 10 fileName @ ''_'' @ template (t_uuid ct) @ ''.failed.png'')))
         else Inr (fileName @ ''.failed.png''))"

text \<open>The test of the \<^verbatim>\<open>catch\<close> callback of \<^verbatim>\<open>_failed\<close>.\<close>

definition session_gone :: "error \<Rightarrow> bool" where
  "session_gone err =
     (err_type err = Some ''RuntimeError'' \<and> err_message err \<noteq> [] \<and>
      (str_includes (err_message err) ''was terminated due to'' \<or>
       str_includes (err_message err) ''no such window: target window already closed''))"

text \<open>
  \<^verbatim>\<open>_failed(test)\<close>. \<^verbatim>\<open>_withinEnd\<close> is its first statement and runs whenever
  \<^verbatim>\<open>withinStore\<close> has a key. The \<^verbatim>\<open>catch\<close> callback returns in both of its
  branches, so the promise of \<^verbatim>\<open>_failed\<close> resolves whatever the screenshot did; only
  the computation of the file name can throw.
\<close>

definition failed :: "env \<Rightarrow> test \<Rightarrow> state \<Rightarrow> unit outcome \<times> state" where
  "failed E t s =
     (let s1 = (if store_keys (withinStore s) \<noteq> 0 then withinEnd s else s)
      in if disableScreenshots (options s1) then (Resolved (), s1)
         else
           (case failed_fileName E (options s1) t of
              Inl e \<Rightarrow> (Threw e, s1)
            | Inr fileName \<Rightarrow>
                (case saveScreenshot E fileName True s1 of
                   (Rejected err, s2) \<Rightarrow>
                     if session_gone err then (Resolved (), s2\<lparr>isRunning := False\<rparr>)
                     else (Resolved (), s2)
                 | (r, s2) \<Rightarrow> (Resolved (), s2))))"

text \<open>
  No scope is active: \<^verbatim>\<open>withinStore\<close> is \<^verbatim>\<open>{}\<close> and \<^verbatim>\<open>this.context\<close> is the
  root element (the test by which \<^verbatim>\<open>proceedSee\<close> tells that it is not inside a
  \<^verbatim>\<open>within\<close> block).
\<close>

definition no_active_scope :: "state \<Rightarrow> bool" where
  "no_active_scope s =
     (withinStore s = empty_store \<and> cur_context s = rootElement (options s))"

subsection \<open>ElementNotFound and assertElementExists\<close>

text \<open>
  \<^verbatim>\<open>new ElementNotFound(locator, prefixMessage, postfixMessage)\<close> throws an
  \<^verbatim>\<open>Error\<close> with this message; an argument left out takes its default.
\<close>

definition ElementNotFound :: "env \<Rightarrow> raw_locator \<Rightarrow> string option \<Rightarrow> string option \<Rightarrow> error" where
  "ElementNotFound E locator prefixMessage postfixMessage =
     Error ((case prefixMessage of None \<Rightarrow> ''Element'' | Some p \<Rightarrow> p) @ '' '' @
            Locator_toString E (new_Locator E locator) @ '' '' @
            (case postfixMessage of
               None \<Rightarrow> ''was not found by text|CSS|XPath''
             | Some p \<Rightarrow> p))"

definition assertElementExists ::
  "env \<Rightarrow> 'a list \<Rightarrow> raw_locator \<Rightarrow> string option \<Rightarrow> string option \<Rightarrow> error + unit" where
  "assertElementExists E res locator prefix suffix =
     (if length res = 0 then Inl (ElementNotFound E locator prefix suffix) else Inr ())"

subsection \<open>The strategy chains\<close>

text \<open>The queries \<^verbatim>\<open>global.by.xpath(x)\<close> and \<^verbatim>\<open>global.by.css(locator)\<close>.\<close>

definition by_xpath :: "string \<Rightarrow> locator_by option" where
  "by_xpath x = Some (By ''xpath'' (Str x))"

definition by_css :: "raw_locator \<Rightarrow> locator_by option" where
  "by_css locator = Some (By ''css'' locator)"

text \<open>
  \<^verbatim>\<open>findCheckable(client, locator)\<close>: a direct query when \<^verbatim>\<open>guessLocator\<close> gives
  one, else by label text, by name, and last the locator as a CSS selector.
\<close>

definition findCheckable ::
  "env \<Rightarrow> matcher \<Rightarrow> raw_locator \<Rightarrow> state \<Rightarrow> elem list outcome \<times> state" where
  "findCheckable E client locator s =
     (case guessLocator E locator of
        Inl e \<Rightarrow> (Rejected e, s)
      | Inr (Some matchedLocator) \<Rightarrow>
          async_return (findElements_on E client (Some matchedLocator) s)
      | Inr None \<Rightarrow>
          await (findElements_on E client
                   (by_xpath (checkable_byText E (literal E locator))) s)
            (\<lambda>els s. if length els \<noteq> 0 then (Resolved els, s) else
          await (findElements_on E client
                   (by_xpath (checkable_byName E (literal E locator))) s)
            (\<lambda>els s. if length els \<noteq> 0 then (Resolved els, s) else
          await (findElements_on E client (by_css locator) s)
            (\<lambda>els s. (Resolved els, s)))))"

text \<open>
  \<^verbatim>\<open>findFields(client, locator)\<close>: a direct query when \<^verbatim>\<open>guessLocator\<close> gives one,
  else by a label equal to the text, by a label containing it, by name, and last the
  locator as a CSS selector.
\<close>

definition findFields ::
  "env \<Rightarrow> matcher \<Rightarrow> raw_locator \<Rightarrow> state \<Rightarrow> elem list outcome \<times> state" where
  "findFields E client locator s =
     (case guessLocator E locator of
        Inl e \<Rightarrow> (Rejected e, s)
      | Inr (Some matchedLocator) \<Rightarrow>
          async_return (findElements_on E client (Some matchedLocator) s)
      | Inr None \<Rightarrow>
          await (findElements_on E client
                   (by_xpath (field_labelEquals E (literal E locator))) s)
            (\<lambda>els s. if length els \<noteq> 0 then (Resolved els, s) else
          await (findElements_on E client
                   (by_xpath (field_labelContains E (literal E locator))) s)
            (\<lambda>els s. if length els \<noteq> 0 then (Resolved els, s) else
          await (findElements_on E client
                   (by_xpath (field_byName E (literal E locator))) s)
            (\<lambda>els s. if length els \<noteq> 0 then (Resolved els, s) else
          await (findElements_on E client (by_css locator) s)
            (\<lambda>els s. (Resolved els, s))))))"

text \<open>The arrow function \<^verbatim>\<open>() => matcher.findElement(guessLocator(locator.value))\<close>\<close>

definition clickable_fn ::
  "env \<Rightarrow> matcher \<Rightarrow> string \<Rightarrow> state \<Rightarrow> elem outcome \<times> state" where
  "clickable_fn E m v s =
     (case guessLocator E (Str v) of
        Inl e \<Rightarrow> (Threw e, s)
      | Inr q \<Rightarrow> findElement_on E m q s)"

text \<open>
  \<^verbatim>\<open>findClickable(matcher, locator)\<close>, called with the helper as \<^verbatim>\<open>this\<close>. Where a
  strategy of the chain finds elements, \<^verbatim>\<open>els[0]\<close> is returned; the last strategy is
  \<^verbatim>\<open>findElement\<close>, which gives one element too.
\<close>

definition findClickable ::
  "env \<Rightarrow> matcher \<Rightarrow> raw_locator \<Rightarrow> state \<Rightarrow> elem outcome \<times> state" where
  "findClickable E m locator s =
     (let l = new_Locator E locator in
      if \<not> fuzzy l then async_return (smartWait (clickable_fn E m (lvalue l)) True s)
      else
        await (findElements_on E m
                 (by_xpath (clickable_narrow E (literal E (Str (lvalue l))))) s)
          (\<lambda>els s. case els of e # rest \<Rightarrow> (Resolved e, s) | [] \<Rightarrow>
        await (findElements_on E m
                 (by_xpath (clickable_wide E (literal E (Str (lvalue l))))) s)
          (\<lambda>els s. case els of e # rest \<Rightarrow> (Resolved e, s) | [] \<Rightarrow>
        async_return (findElement_on E m (by_css (Str (lvalue l))) s))))"

subsection \<open>Fields\<close>

text \<open>The element operations \<^verbatim>\<open>el.clear()\<close> and \<^verbatim>\<open>el.sendKeys(value)\<close>.\<close>

definition el_clear :: "env \<Rightarrow> elem \<Rightarrow> state \<Rightarrow> unit outcome \<times> state" where
  "el_clear E el s = (drv_clear E el, issue (Clear el) s)"

definition el_sendKeys :: "env \<Rightarrow> elem \<Rightarrow> string \<Rightarrow> state \<Rightarrow> unit outcome \<times> state" where
  "el_sendKeys E el v s = (drv_sendKeys E el v, issue (SendKeys el v) s)"

text \<open>
  \<^verbatim>\<open>fillField(field, value)\<close> goes from \<^verbatim>\<open>findFields\<close> straight to
  \<^verbatim>\<open>els[0].clear()\<close>: on an empty list \<^verbatim>\<open>els[0]\<close> is \<^verbatim>\<open>undefined\<close> and reading
  its \<^verbatim>\<open>clear\<close> throws a \<^verbatim>\<open>TypeError\<close>.
\<close>

definition fillField :: "env \<Rightarrow> raw_locator \<Rightarrow> string \<Rightarrow> state \<Rightarrow> unit outcome \<times> state" where
  "fillField E field v s =
     await (findFields E Browser field s)
       (\<lambda>els s. case els of
          [] \<Rightarrow> (Rejected (TypeError ''Cannot read property clear of undefined''), s)
        | el # rest \<Rightarrow>
            await (el_clear E el s) (\<lambda>u s. async_return (el_sendKeys E el v s)))"

text \<open>\<^verbatim>\<open>appendField(field, value)\<close>\<close>

definition appendField :: "env \<Rightarrow> raw_locator \<Rightarrow> string \<Rightarrow> state \<Rightarrow> unit outcome \<times> state" where
  "appendField E field v s =
     await (findFields E Browser field s)
       (\<lambda>els s. case assertElementExists E els field (Some ''Field'') None of
          Inl e \<Rightarrow> (Rejected e, s)
        | Inr u \<Rightarrow>
            (case els of
               [] \<Rightarrow> (Rejected (TypeError ''Cannot read property sendKeys of undefined''), s)
             | el # rest \<Rightarrow> async_return (el_sendKeys E el v s)))"

text \<open>\<^verbatim>\<open>clearField(field)\<close>\<close>

definition clearField :: "env \<Rightarrow> raw_locator \<Rightarrow> state \<Rightarrow> unit outcome \<times> state" where
  "clearField E field s =
     await (findFields E Browser field s)
       (\<lambda>els s. case assertElementExists E els field (Some ''Field'') None of
          Inl e \<Rightarrow> (Rejected e, s)
        | Inr u \<Rightarrow>
            (case els of
               [] \<Rightarrow> (Rejected (TypeError ''Cannot read property clear of undefined''), s)
             | el # rest \<Rightarrow> async_return (el_clear E el s)))"

subsection \<open>Checkboxes\<close>

text \<open>
  \<^verbatim>\<open>els.forEach((el) => elsSelected.push(el.isSelected()))\<close>: the calls are issued
  from left to right, and one that throws ends the loop.
\<close>

fun forEach_isSelected ::
  "env \<Rightarrow> elem list \<Rightarrow> state \<Rightarrow> (error + bool outcome list) \<times> state" where
  "forEach_isSelected E [] s = (Inr [], s)"
| "forEach_isSelected E (el # els) s =
     (case drv_isSelected E el of
        Threw e \<Rightarrow> (Inl e, issue (IsSelected el) s)
      | r \<Rightarrow>
          (case forEach_isSelected E els (issue (IsSelected el) s) of
             (Inl e, s') \<Rightarrow> (Inl e, s')
           | (Inr rs, s') \<Rightarrow> (Inr (r # rs), s')))"

text \<open>\<^verbatim>\<open>Promise.all\<close> of settled promises: all the values, or the first rejection.\<close>

fun promise_all :: "'a outcome list \<Rightarrow> 'a list outcome" where
  "promise_all [] = Resolved []"
| "promise_all (Resolved v # rs) =
     (case promise_all rs of
        Resolved vs \<Rightarrow> Resolved (v # vs)
      | Rejected e \<Rightarrow> Rejected e
      | Threw e \<Rightarrow> Rejected e)"
| "promise_all (Rejected e # rs) = Rejected e"
| "promise_all (Threw e # rs) = Rejected e"

text \<open>
  \<^verbatim>\<open>values.reduce((prev, cur) => prev || cur)\<close>: with no initial value the first
  element starts the fold, and an empty array throws.
\<close>

fun reduce_or :: "bool list \<Rightarrow> error + bool" where
  "reduce_or [] = Inl (TypeError ''Reduce of empty array with no initial value'')"
| "reduce_or (v # vs) = Inr (foldl (\<lambda>prev cur. prev \<or> cur) v vs)"

datatype assert_type = Assert | Negate

text \<open>
  Modelled from the spec: \<^verbatim>\<open>truth(subject, type)\<close> of \<^verbatim>\<open>lib/assert/truth.js\<close> is
  not among the sources. By the specification's checkbox property,
  \<^verbatim>\<open>seeCheckboxIsChecked\<close> succeeds when the combined value is true: \<^verbatim>\<open>assert\<close>
  passes on a true value and throws on a false one, and \<^verbatim>\<open>negate\<close> the other way
  round.
\<close>

definition truth :: "string \<Rightarrow> string \<Rightarrow> assert_type \<Rightarrow> bool \<Rightarrow> error + unit" where
  "truth subject type assertType v =
     (if (assertType = Assert) = v then Inr ()
      else Inl (AssertionFailed (''expected '' @ subject @ '' '' @ type)))"

text \<open>A locator inside a template literal: an object prints as \<^verbatim>\<open>[object Object]\<close>.\<close>

fun js_string :: "raw_locator \<Rightarrow> string" where
  "js_string (Str x) = x"
| "js_string (Obj k v) = ''[object Object]''"

text \<open>\<^verbatim>\<open>proceedIsChecked(assertType, option)\<close>, called with the helper as \<^verbatim>\<open>this\<close>.\<close>

definition proceedIsChecked ::
  "env \<Rightarrow> assert_type \<Rightarrow> raw_locator \<Rightarrow> state \<Rightarrow> unit outcome \<times> state" where
  "proceedIsChecked E assertType option s =
     await (findCheckable E Browser option s)
       (\<lambda>els s. case assertElementExists E els option (Some ''Option'') None of
          Inl e \<Rightarrow> (Rejected e, s)
        | Inr u \<Rightarrow>
            (case forEach_isSelected E els s of
               (Inl e, s1) \<Rightarrow> (Rejected e, s1)
             | (Inr elsSelected, s1) \<Rightarrow>
                 await (promise_all elsSelected, s1)
                   (\<lambda>values s2. case reduce_or values of
                      Inl e \<Rightarrow> (Rejected e, s2)
                    | Inr selected \<Rightarrow>
                        (case truth (''checkable '' @ js_string option)
                                ''to be checked'' assertType selected of
                           Inl e \<Rightarrow> (Rejected e, s2)
                         | Inr u \<Rightarrow> (Resolved (), s2)))))"

text \<open>\<^verbatim>\<open>seeCheckboxIsChecked(field)\<close> and \<^verbatim>\<open>dontSeeCheckboxIsChecked(field)\<close>\<close>

definition seeCheckboxIsChecked :: "env \<Rightarrow> raw_locator \<Rightarrow> state \<Rightarrow> unit outcome \<times> state" where
  "seeCheckboxIsChecked E field s = async_return (proceedIsChecked E Assert field s)"

definition dontSeeCheckboxIsChecked :: "env \<Rightarrow> raw_locator \<Rightarrow> state \<Rightarrow> unit outcome \<times> state" where
  "dontSeeCheckboxIsChecked E field s = async_return (proceedIsChecked E Negate field s)"

subsection \<open>Text on the page\<close>

text \<open>A locator as a condition: the empty string is falsy, an object is truthy.\<close>

fun js_truthy :: "raw_locator \<Rightarrow> bool" where
  "js_truthy (Str x) = (x \<noteq> [])"
| "js_truthy (Obj k v) = True"

text \<open>
  \<^verbatim>\<open>els.forEach(el => promises.push(el.getText().then(...)))\<close>: the calls are issued
  from left to right, and one that throws ends the loop.
\<close>

fun forEach_getText ::
  "env \<Rightarrow> elem list \<Rightarrow> state \<Rightarrow> (error + string outcome list) \<times> state" where
  "forEach_getText E [] s = (Inr [], s)"
| "forEach_getText E (el # els) s =
     (case drv_getText E el of
        Threw e \<Rightarrow> (Inl e, issue (GetText el) s)
      | r \<Rightarrow>
          (case forEach_getText E els (issue (GetText el) s) of
             (Inl e, s') \<Rightarrow> (Inl e, s')
           | (Inr rs, s') \<Rightarrow> (Inr (r # rs), s')))"

text \<open>
  The string \<^verbatim>\<open>source\<close> once every callback \<^verbatim>\<open>source += '| ' + elText\<close> has run,
  the texts taken in the order of the elements.
\<close>

definition see_source :: "string list \<Rightarrow> string" where
  "see_source texts = concat (map (\<lambda>elText. ''| '' @ elText) texts)"

text \<open>
  Modelled from the spec: \<^verbatim>\<open>stringIncludes(description)\<close> of
  \<^verbatim>\<open>lib/assert/include.js\<close> is not among the sources. By section 4.2 of the
  specification the text of the matched nodes is put together for a substring
  comparison: \<^verbatim>\<open>assert\<close> passes when the text occurs in the source and throws when it
  does not, and \<^verbatim>\<open>negate\<close> the other way round.
\<close>

definition stringIncludes ::
  "string \<Rightarrow> assert_type \<Rightarrow> string \<Rightarrow> string \<Rightarrow> error + unit" where
  "stringIncludes description assertType text source =
     (if (assertType = Assert) = str_includes source text then Inr ()
      else Inl (AssertionFailed (''expected '' @ description @ '' to include '' @ text)))"

text \<open>
  The query of \<^verbatim>\<open>proceedSee\<close>. With no context given it is the helper's context when
  that is the root element, and every node below the scope inside a \<^verbatim>\<open>within\<close>
  block; with a context it is the context's own query, or the context as a CSS selector.
  (\<^verbatim>\<open>===\<close> is taken as equality of the two locators.)
\<close>

definition see_locator :: "env \<Rightarrow> raw_locator option \<Rightarrow> state \<Rightarrow> error + locator_by option" where
  "see_locator E context s =
     (case context of
        None \<Rightarrow>
          if cur_context s = rootElement (options s) then guess_or_css E (cur_context s)
          else Inr (by_xpath ''.//*'')
      | Some c \<Rightarrow>
          if \<not> js_truthy c then
            (if cur_context s = rootElement (options s) then guess_or_css E (cur_context s)
             else Inr (by_xpath ''.//*''))
          else guess_or_css E c)"

text \<open>The description \<^verbatim>\<open>proceedSee\<close> hands to the assertion.\<close>

definition see_description :: "env \<Rightarrow> raw_locator option \<Rightarrow> state \<Rightarrow> string" where
  "see_description E context s =
     (case context of
        None \<Rightarrow>
          if cur_context s = rootElement (options s) then ''web application''
          else ''current context '' @ Locator_toString E (null_Locator E)
      | Some c \<Rightarrow>
          if \<not> js_truthy c then
            (if cur_context s = rootElement (options s) then ''web application''
             else ''current context '' @ Locator_toString E (new_Locator E c))
          else ''element '' @ Locator_toString E (new_Locator E c))"

text \<open>
  \<^verbatim>\<open>proceedSee(assertType, text, context)\<close>, called with the helper as \<^verbatim>\<open>this\<close>;
  \<open>None\<close> is the context \<^verbatim>\<open>null\<close>. The text of every element found is read.
\<close>

definition proceedSee ::
  "env \<Rightarrow> assert_type \<Rightarrow> string \<Rightarrow> raw_locator option \<Rightarrow> state \<Rightarrow> unit outcome \<times> state" where
  "proceedSee E assertType text context s =
     (case see_locator E context s of
        Inl e \<Rightarrow> (Rejected e, s)
      | Inr locator \<Rightarrow>
          (let description = see_description E context s;
               enableSmartWait = (js_truthy (cur_context s) \<and> assertType = Assert)
           in await (smartWait (findElements_on E Browser locator) enableSmartWait s)
                (\<lambda>els s1. case forEach_getText E els s1 of
                   (Inl e, s2) \<Rightarrow> (Rejected e, s2)
                 | (Inr promises, s2) \<Rightarrow>
                     await (promise_all promises, s2)
                       (\<lambda>texts s3.
                          case stringIncludes description assertType text (see_source texts) of
                            Inl e \<Rightarrow> (Rejected e, s3)
                          | Inr u \<Rightarrow> (Resolved (), s3)))))"

text \<open>\<^verbatim>\<open>see(text, context)\<close> and \<^verbatim>\<open>dontSee(text, context)\<close>\<close>

definition see :: "env \<Rightarrow> string \<Rightarrow> raw_locator option \<Rightarrow> state \<Rightarrow> unit outcome \<times> state" where
  "see E text context s = proceedSee E Assert text context s"

definition dontSee :: "env \<Rightarrow> string \<Rightarrow> raw_locator option \<Rightarrow> state \<Rightarrow> unit outcome \<times> state" where
  "dontSee E text context s = proceedSee E Negate text context s"

subsection \<open>Reading the command log\<close>

text \<open>The root a find function searches, when it is a function.\<close>

fun fn_root :: "find_fn \<Rightarrow> root option" where
  "fn_root Undefined = None"
| "fn_root DriverFn = Some Document"
| "fn_root (ScopedFn c) = Some (Within c)"

text \<open>The root that \<^verbatim>\<open>findElements\<close> of a matcher searches in a state.\<close>

fun matcher_root :: "matcher \<Rightarrow> state \<Rightarrow> root option" where
  "matcher_root Browser s = fn_root (browser_findElements s)"
| "matcher_root (Element c) s = Some (Within c)"

text \<open>The root that \<^verbatim>\<open>findElement\<close> of a matcher searches in a state.\<close>

fun matcher_el_root :: "matcher \<Rightarrow> state \<Rightarrow> root option" where
  "matcher_el_root Browser s = fn_root (browser_findElement s)"
| "matcher_el_root (Element c) s = Some (Within c)"

fun is_find :: "call \<Rightarrow> bool" where
  "is_find (FindElement r q) = True"
| "is_find (FindElements r q) = True"
| "is_find c = False"

text \<open>The commands issued between an earlier state and a later one, and the queries among them.\<close>

definition issued_since :: "state \<Rightarrow> state \<Rightarrow> call list" where
  "issued_since s s' = drop (length (calls s)) (calls s')"

definition queries_since :: "state \<Rightarrow> state \<Rightarrow> call list" where
  "queries_since s s' = filter is_find (issued_since s s')"

text \<open>A state with further commands issued, and nothing else changed.\<close>

definition issue_all :: "call list \<Rightarrow> state \<Rightarrow> state" where
  "issue_all cs s = s\<lparr>calls := calls s @ cs\<rparr>"

subsection \<open>The chains as the specification lists them\<close>

text \<open>
  Section 4.2 of the specification gives each capability an ordered list of strategies.
  These are the queries of the lists, in that order, to compare the functions above with.
\<close>

definition field_chain :: "env \<Rightarrow> raw_locator \<Rightarrow> locator_by option list" where
  "field_chain E locator =
     [by_xpath (field_labelEquals E (literal E locator)),
      by_xpath (field_labelContains E (literal E locator)),
      by_xpath (field_byName E (literal E locator)),
      by_css locator]"

definition checkable_chain :: "env \<Rightarrow> raw_locator \<Rightarrow> locator_by option list" where
  "checkable_chain E locator =
     [by_xpath (checkable_byText E (literal E locator)),
      by_xpath (checkable_byName E (literal E locator)),
      by_css locator]"

definition clickable_chain :: "env \<Rightarrow> raw_locator \<Rightarrow> locator_by option list" where
  "clickable_chain E locator =
     [by_xpath (clickable_narrow E (literal E (Str (lvalue (new_Locator E locator))))),
      by_xpath (clickable_wide E (literal E (Str (lvalue (new_Locator E locator))))),
      by_css (Str (lvalue (new_Locator E locator)))]"

text \<open>
  The contract of a chain in the specification: the strategies are tried in order, an
  empty list means that the next one is tried, a list that is not empty is the result
  and ends the chain, and the last strategy's list is the result whatever it is.
\<close>

fun first_nonempty ::
  "env \<Rightarrow> matcher \<Rightarrow> locator_by option list \<Rightarrow> state \<Rightarrow> elem list outcome \<times> state" where
  "first_nonempty E m [] s = (Resolved [], s)"
| "first_nonempty E m [q] s = await (findElements_on E m q s) (\<lambda>els s. (Resolved els, s))"
| "first_nonempty E m (q # q' # qs) s =
     await (findElements_on E m q s)
       (\<lambda>els s. if length els \<noteq> 0 then (Resolved els, s) else first_nonempty E m (q' # qs) s)"

subsection \<open>An example page\<close>

text \<open>
  Modelled from the spec: the \<^verbatim>\<open>Locator\<close> class of \<^verbatim>\<open>lib/locator.js\<close> is not
  among the sources. Section 4.1: an object with one key is not fuzzy and has the key as
  its type; a string that begins with \<^verbatim>\<open>#\<close> or \<^verbatim>\<open>.\<close> is CSS, one that begins with
  \<^verbatim>\<open>//\<close> or \<^verbatim>\<open>(\<close> is XPath; every other string is fuzzy and has no type.
\<close>

definition spec_Locator :: "raw_locator \<Rightarrow> Locator" where
  "spec_Locator raw =
     (case raw of
        Obj k v \<Rightarrow> \<lparr>ltype = Some k, lvalue = v, fuzzy = False\<rparr>
      | Str x \<Rightarrow>
          if take 1 x = ''#'' \<or> take 1 x = ''.''
          then \<lparr>ltype = Some ''css'', lvalue = x, fuzzy = False\<rparr>
          else if take 2 x = ''//'' \<or> take 1 x = ''(''
          then \<lparr>ltype = Some ''xpath'', lvalue = x, fuzzy = False\<rparr>
          else \<lparr>ltype = None, lvalue = x, fuzzy = True\<rparr>)"

text \<open>
  A page for the examples: a form \<^verbatim>\<open>#login\<close> (element 9) with a label
  \<^verbatim>\<open>Password\<close> around the input named \<^verbatim>\<open>pwd\<close> (element 1), two checkboxes named
  \<^verbatim>\<open>agree\<close> (elements 2, checked, and 3, not checked), two buttons \<^verbatim>\<open>Save\<close>
  (elements 4 and 5) and two links (elements 6 and 7, with the texts \<^verbatim>\<open>Home\<close> and
  \<^verbatim>\<open>Help\<close>). The table gives the elements each query matches.
\<close>

definition example_page :: "(string \<times> string) \<Rightarrow> elem list" where
  "example_page q =
     (case map_of
        [((''css'', ''#login''), [9]),
         ((''xpath'', ''label='' @ ''Password''), [1]),
         ((''name'', ''pwd''), [1]),
         ((''xpath'', ''name='' @ ''agree''), [2, 3]),
         ((''xpath'', ''narrow='' @ ''Save''), [4, 5]),
         ((''css'', ''button''), [4, 5]),
         ((''css'', ''a''), [6, 7])] q of
        None \<Rightarrow> []
      | Some els \<Rightarrow> els)"

text \<open>
  The driver of the examples: \<^verbatim>\<open>findElements\<close> throws on an argument that is not a
  query, and \<^verbatim>\<open>findElement\<close> is rejected when nothing matches.
\<close>

definition example_findElements :: "root \<Rightarrow> locator_by option \<Rightarrow> elem list outcome" where
  "example_findElements r q =
     (case q of
        None \<Rightarrow> Threw (TypeError ''Invalid locator'')
      | Some (By k (Obj a b)) \<Rightarrow> Threw (TypeError ''Invalid locator'')
      | Some (By k (Str x)) \<Rightarrow> Resolved (example_page (k, x)))"

definition example_findElement :: "root \<Rightarrow> locator_by option \<Rightarrow> elem outcome" where
  "example_findElement r q =
     (case example_findElements r q of
        Threw e \<Rightarrow> Threw e
      | Rejected e \<Rightarrow> Rejected e
      | Resolved [] \<Rightarrow> Rejected (DriverError ''NoSuchElementError'' ''no such element'')
      | Resolved (e # rest) \<Rightarrow> Resolved e)"

definition example_env :: env where
  "example_env =
     \<lparr>new_Locator = spec_Locator,
      Locator_toString = lvalue,
      by_has = (\<lambda>t. t \<in> set [''css'', ''xpath'', ''id'', ''name'']),
      literal = js_string,
      field_labelEquals = (\<lambda>x. ''label='' @ x),
      field_labelContains = (\<lambda>x. ''label~'' @ x),
      field_byName = (\<lambda>x. ''name='' @ x),
      checkable_byText = (\<lambda>x. ''label='' @ x),
      checkable_byName = (\<lambda>x. ''name='' @ x),
      clickable_narrow = (\<lambda>x. ''narrow='' @ x),
      clickable_wide = (\<lambda>x. ''wide='' @ x),
      clearString = (\<lambda>x. x),
      drv_findElement = example_findElement,
      drv_findElements = example_findElements,
      drv_isSelected = (\<lambda>e. Resolved (e = 2)),
      drv_clear = (\<lambda>e. Resolved ()),
      drv_sendKeys = (\<lambda>e v. Resolved ()),
      drv_saveScreenshot = (\<lambda>f p. Resolved ()),
      drv_getText =
        (\<lambda>e. Resolved (if e = 4 \<or> e = 5 then ''Save'' else if e = 6 then ''Home''
                       else if e = 7 then ''Help'' else [])),
      null_Locator = \<lparr>ltype = None, lvalue = [], fuzzy = False\<rparr>\<rparr>"

text \<open>
  The helper after \<^verbatim>\<open>_init\<close> and \<^verbatim>\<open>_startBrowser\<close>: the context and the root
  element are \<^verbatim>\<open>body\<close>, the browser has the driver's methods, \<^verbatim>\<open>withinStore\<close> is
  \<^verbatim>\<open>{}\<close>. \<open>example_state n\<close> has the option \<^verbatim>\<open>smartWait\<close> set to \<open>n\<close>.
\<close>

definition example_state :: "int \<Rightarrow> state" where
  "example_state n =
     \<lparr>options = \<lparr>opt_smartWait = n, rootElement = Str ''body'',
                 disableScreenshots = False, uniqueScreenshotNames = False\<rparr>,
      cur_context = Str ''body'',
      isRunning = True,
      browser_findElement = DriverFn,
      browser_findElements = DriverFn,
      withinStore = empty_store,
      implicitWait = 0,
      calls = []\<rparr>"

definition example_test :: test where
  "example_test = \<lparr>title = ''login works'', uuid = None, ctx_test = None\<rparr>"

section \<open>Properties\<close>

subsection \<open>Basic facts\<close>

lemma settle_idem: "settle (settle r) = settle r"
  by (cases r) simp_all

lemma calls_issue [simp]: "calls (issue c s) = calls s @ [c]"
  by (simp add: issue_def)

lemma calls_implicitlyWait [simp]: "calls (implicitlyWait n s) = calls s @ [ImplicitlyWait n]"
  by (simp add: implicitlyWait_def issue_def)

lemma browser_findElements_implicitlyWait [simp]:
  "browser_findElements (implicitlyWait n s) = browser_findElements s"
  by (simp add: implicitlyWait_def issue_def)

lemma matcher_root_issue [simp]: "matcher_root m (issue c s) = matcher_root m s"
  by (cases m) (simp_all add: issue_def)

lemma call_findElements_root:
  assumes "fn_root f = Some r"
  shows "call_findElements E f q s = (drv_findElements E r q, issue (FindElements r q) s)"
  using assms by (cases f) (simp_all add: call_findElements_def)

lemma call_findElement_root:
  assumes "fn_root f = Some r"
  shows "call_findElement E f q s = (drv_findElement E r q, issue (FindElement r q) s)"
  using assms by (cases f) (simp_all add: call_findElement_def)

lemma findElements_on_root:
  assumes "matcher_root m s = Some r"
  shows "findElements_on E m q s = (drv_findElements E r q, issue (FindElements r q) s)"
  using assms by (cases m) (simp_all add: findElements_on_def call_findElements_root)

lemma guessLocator_fuzzy:
  "fuzzy (new_Locator E locator) \<Longrightarrow> guessLocator E locator = Inr None"
  by (simp add: guessLocator_def)

lemma guessLocator_typed:
  assumes "\<not> fuzzy (new_Locator E locator)" and "ltype (new_Locator E locator) = Some t"
    and "t \<noteq> []" and "by_has E t"
  shows "guessLocator E locator = Inr (Some (By t (Str (lvalue (new_Locator E locator)))))"
  using assms by (simp add: guessLocator_def)

subsection \<open>Smart wait\<close>

text \<open>
  When \<^verbatim>\<open>fn\<close> returns, with a promise that resolves or is rejected, the timeout is
  back at \<open>0\<close> after \<^verbatim>\<open>_smartWait\<close>.
\<close>

lemma smartWait_resets_when_fn_returns:
  assumes "opt_smartWait (options s) \<noteq> 0"
    and "fn (implicitlyWait (opt_smartWait (options s)) s) = (r, s2)"
    and "r = Rejected e \<or> r = Resolved v"
  shows "smartWait fn True s = (r, implicitlyWait 0 s2)"
    and "implicitWait (snd (smartWait fn True s)) = 0"
  using assms by (auto simp add: smartWait_def implicitlyWait_def issue_def)

text \<open>
  When \<^verbatim>\<open>fn\<close> throws, \<^verbatim>\<open>_smartWait\<close> ends in the state \<^verbatim>\<open>fn\<close> left: the
  statement that sets the timeout back is not reached.
\<close>

lemma smartWait_no_reset_when_fn_throws:
  assumes "opt_smartWait (options s) \<noteq> 0"
    and "fn (implicitlyWait (opt_smartWait (options s)) s) = (Threw e, s2)"
  shows "smartWait fn True s = (Rejected e, s2)"
  using assms by (simp add: smartWait_def)

text \<open>
  C1. The specification requires that after \<^verbatim>\<open>_smartWait(fn)\<close> with smart wait
  enabled the implicit-wait timeout is \<open>0\<close> again, also when \<^verbatim>\<open>fn\<close> throws. The
  code at a throwing
  \<^verbatim>\<open>fn\<close>, with the option \<^verbatim>\<open>smartWait\<close> at 5000: the timeout stays at 5000. So it
  does for \<^verbatim>\<open>_locate({foo: 'bar'}, true)\<close> on a driver library with no method
  \<^verbatim>\<open>by.foo\<close>, where \<^verbatim>\<open>guessLocator\<close> throws inside the function passed.
\<close>

theorem smartWait_throwing_fn_leaves_timeout:
  "implicitWait (snd (smartWait (\<lambda>s. (Threw (Error ''boom'') :: unit outcome, s)) True
      (example_state 5000))) = 5000
   \<and> implicitWait (snd (locate example_env (Obj ''foo'' ''bar'') True (example_state 5000))) = 5000
   \<and> fst (locate example_env (Obj ''foo'' ''bar'') True (example_state 5000))
       = Rejected (TypeError ''global.by[l.type] is not a function'')"
  by (simp add: smartWait_def locate_def locate_fn_def guessLocator_def example_env_def
      spec_Locator_def example_state_def implicitlyWait_def issue_def async_return_def)

subsection \<open>Entering and leaving a scope\<close>

lemma withinEnd_fields:
  "browser_findElement (withinEnd s) = prop_get (elFn (withinStore s))"
  "browser_findElements (withinEnd s) = prop_get (elsFn (withinStore s))"
  "withinStore (withinEnd s) = empty_store"
  "cur_context (withinEnd s) = rootElement (options s)"
  "options (withinEnd s) = options s"
  by (simp_all add: withinEnd_def)

text \<open>\<^verbatim>\<open>_withinEnd\<close> always leaves a state with no active scope.\<close>

lemma withinEnd_no_active_scope: "no_active_scope (withinEnd s)"
  by (simp add: no_active_scope_def withinEnd_fields)

text \<open>
  Whatever \<^verbatim>\<open>_withinBegin\<close> does afterwards, it has saved the two methods, set the
  context and left the options alone.
\<close>

lemma withinBegin_saves:
  "withinStore (snd (withinBegin E locator s)) =
     \<lparr>elFn = Some (browser_findElement s), elsFn = Some (browser_findElements s)\<rparr>"
  "cur_context (snd (withinBegin E locator s)) = locator"
  "options (snd (withinBegin E locator s)) = options s"
  by (auto simp add: withinBegin_def Let_def findElement_on_def call_findElement_def issue_def
      split: sum.splits option.splits find_fn.splits outcome.splits prod.splits)

text \<open>
  C2. From a state with no active scope, when \<^verbatim>\<open>_withinBegin(locator)\<close> resolves to an
  element, the browser's two find functions are bound to that element and the context
  is the locator; \<^verbatim>\<open>_withinEnd()\<close> then gives \<^verbatim>\<open>findElement\<close>,
  \<^verbatim>\<open>findElements\<close> and the context the values they had before the entry, and
  \<^verbatim>\<open>withinStore\<close> is empty.
\<close>

theorem within_begin_end_restores:
  assumes "no_active_scope s"
    and "withinBegin E locator s = (Resolved c, s1)"
  shows "browser_findElement s1 = ScopedFn c \<and> browser_findElements s1 = ScopedFn c
     \<and> cur_context s1 = locator
     \<and> browser_findElement (withinEnd s1) = browser_findElement s
     \<and> browser_findElements (withinEnd s1) = browser_findElements s
     \<and> cur_context (withinEnd s1) = cur_context s
     \<and> withinStore (withinEnd s1) = empty_store"
  using assms
  by (auto simp add: no_active_scope_def withinBegin_def withinEnd_def Let_def
        findElement_on_def call_findElement_def issue_def
      split: sum.splits option.splits find_fn.splits outcome.splits prod.splits)

theorem within_begin_end_restores_witness:
  "no_active_scope (example_state 0)
   \<and> fst (withinBegin example_env (Str ''#login'') (example_state 0)) = Resolved 9
   \<and> browser_findElement (snd (withinBegin example_env (Str ''#login'') (example_state 0)))
       = ScopedFn 9
   \<and> browser_findElement
        (withinEnd (snd (withinBegin example_env (Str ''#login'') (example_state 0)))) = DriverFn
   \<and> browser_findElements
        (withinEnd (snd (withinBegin example_env (Str ''#login'') (example_state 0)))) = DriverFn
   \<and> cur_context
        (withinEnd (snd (withinBegin example_env (Str ''#login'') (example_state 0))))
       = Str ''body''
   \<and> withinStore
        (withinEnd (snd (withinBegin example_env (Str ''#login'') (example_state 0))))
       = empty_store"
proof -
  have h1: "no_active_scope (example_state 0)"
    by (simp add: no_active_scope_def example_state_def)
  have r: "fst (withinBegin example_env (Str ''#login'') (example_state 0)) = Resolved 9"
    by (simp add: withinBegin_def guess_or_css_def guessLocator_def example_env_def
        spec_Locator_def example_state_def findElement_on_def call_findElement_def
        example_findElement_def example_findElements_def example_page_def issue_def)
  have h2: "withinBegin example_env (Str ''#login'') (example_state 0) =
      (Resolved 9, snd (withinBegin example_env (Str ''#login'') (example_state 0)))"
    using r by (simp add: prod_eq_iff)
  have s0: "browser_findElement (example_state 0) = DriverFn"
    "browser_findElements (example_state 0) = DriverFn"
    "cur_context (example_state 0) = Str ''body''"
    by (simp_all add: example_state_def)
  show ?thesis
    using h1 r within_begin_end_restores [OF h1 h2] by (simp add: s0)
qed

text \<open>
  The same holds when the entry fails: the functions were not rebound, and
  \<^verbatim>\<open>_withinEnd\<close> puts back the saved ones.
\<close>

lemma within_begin_end_restores_always:
  assumes "no_active_scope s"
  shows "browser_findElement (withinEnd (snd (withinBegin E locator s))) = browser_findElement s"
    and "browser_findElements (withinEnd (snd (withinBegin E locator s))) = browser_findElements s"
    and "cur_context (withinEnd (snd (withinBegin E locator s))) = cur_context s"
    and "withinStore (withinEnd (snd (withinBegin E locator s))) = empty_store"
  using assms by (simp_all add: withinEnd_fields withinBegin_saves no_active_scope_def)

subsection \<open>The failure hook\<close>

lemma failed_scope_fields:
  "browser_findElement (snd (failed E t s)) =
     browser_findElement (if store_keys (withinStore s) \<noteq> 0 then withinEnd s else s)"
  "browser_findElements (snd (failed E t s)) =
     browser_findElements (if store_keys (withinStore s) \<noteq> 0 then withinEnd s else s)"
  "withinStore (snd (failed E t s)) =
     withinStore (if store_keys (withinStore s) \<noteq> 0 then withinEnd s else s)"
  "cur_context (snd (failed E t s)) =
     cur_context (if store_keys (withinStore s) \<noteq> 0 then withinEnd s else s)"
  by (auto simp add: failed_def Let_def saveScreenshot_def issue_def
      split: sum.splits outcome.splits prod.splits)

text \<open>
  C3. When \<^verbatim>\<open>_failed\<close> runs while \<^verbatim>\<open>withinStore\<close> has a key, then however
  \<^verbatim>\<open>_failed\<close> itself ends (the screenshot may fail, the file name may throw), the
  browser's find functions are the saved ones again, \<^verbatim>\<open>withinStore\<close> is empty and the
  context is the root element.
\<close>

theorem failed_releases_scope:
  assumes "store_keys (withinStore s) \<noteq> 0"
  shows "browser_findElement (snd (failed E t s)) = prop_get (elFn (withinStore s))
     \<and> browser_findElements (snd (failed E t s)) = prop_get (elsFn (withinStore s))
     \<and> withinStore (snd (failed E t s)) = empty_store
     \<and> cur_context (snd (failed E t s)) = rootElement (options s)"
  using assms by (simp add: failed_scope_fields withinEnd_fields)

theorem failed_releases_scope_witness:
  "store_keys
     (withinStore (snd (withinBegin example_env (Str ''#login'') (example_state 0)))) \<noteq> 0
   \<and> browser_findElement
        (snd (failed example_env example_test
               (snd (withinBegin example_env (Str ''#login'') (example_state 0))))) = DriverFn
   \<and> browser_findElements
        (snd (failed example_env example_test
               (snd (withinBegin example_env (Str ''#login'') (example_state 0))))) = DriverFn
   \<and> withinStore
        (snd (failed example_env example_test
               (snd (withinBegin example_env (Str ''#login'') (example_state 0))))) = empty_store
   \<and> cur_context
        (snd (failed example_env example_test
               (snd (withinBegin example_env (Str ''#login'') (example_state 0))))) = Str ''body''"
proof -
  have h: "store_keys
      (withinStore (snd (withinBegin example_env (Str ''#login'') (example_state 0)))) \<noteq> 0"
    by (simp add: withinBegin_saves store_keys_def)
  have s0: "browser_findElement (example_state 0) = DriverFn"
    "browser_findElements (example_state 0) = DriverFn"
    "rootElement (options (example_state 0)) = Str ''body''"
    by (simp_all add: example_state_def)
  show ?thesis
    using h failed_releases_scope [OF h, of example_env example_test]
    by (simp add: withinBegin_saves s0)
qed

text \<open>
  Put together: a scope entered from a state with no active scope, whether the entry
  resolved or not, and a body that leaves \<^verbatim>\<open>withinStore\<close> and the options as the
  entry left them; after \<^verbatim>\<open>_failed\<close> the find functions and the context are those
  from before the entry.
\<close>

lemma failed_after_withinBegin:
  assumes "no_active_scope s0"
    and "withinStore s2 = withinStore (snd (withinBegin E locator s0))"
    and "options s2 = options s0"
  shows "browser_findElement (snd (failed E t s2)) = browser_findElement s0"
    and "browser_findElements (snd (failed E t s2)) = browser_findElements s0"
    and "withinStore (snd (failed E t s2)) = empty_store"
    and "cur_context (snd (failed E t s2)) = cur_context s0"
  using assms
  by (simp_all add: failed_scope_fields withinEnd_fields withinBegin_saves store_keys_def
      no_active_scope_def)

subsection \<open>The locate entry point\<close>

text \<open>
  \<^verbatim>\<open>_locate\<close> issues one \<^verbatim>\<open>findElements\<close> call, with whatever
  \<^verbatim>\<open>guessLocator\<close> returned, and returns its outcome; smart wait adds no query.
\<close>

lemma locate_single_query:
  assumes "guessLocator E locator = Inr q"
    and "fn_root (browser_findElements s) = Some r"
  shows "queries_since s (snd (locate E locator sw s)) = [FindElements r q]"
    and "fst (locate E locator sw s) = settle (drv_findElements E r q)"
  using assms
  by (auto simp add: locate_def smartWait_def locate_fn_def findElements_on_def
        call_findElements_root async_return_def queries_since_def issued_since_def Let_def
        settle_idem
      split: outcome.splits)

text \<open>
  C4, as the specification states it: for a fuzzy locator \<^verbatim>\<open>_locate\<close> runs the strategy chain of the
  capability. On the example page the fuzzy locator \<^verbatim>\<open>Password\<close> makes
  \<^verbatim>\<open>_locate\<close> issue one call with \<^verbatim>\<open>false\<close> for the query, which the driver
  refuses, while the field chain issues its label query and finds the input.
\<close>

theorem locate_fuzzy_runs_no_chain:
  "fuzzy (new_Locator example_env (Str ''Password''))
   \<and> queries_since (example_state 0)
        (snd (locate example_env (Str ''Password'') False (example_state 0)))
       = [FindElements Document None]
   \<and> fst (locate example_env (Str ''Password'') False (example_state 0))
       = Rejected (TypeError ''Invalid locator'')
   \<and> queries_since (example_state 0)
        (snd (findFields example_env Browser (Str ''Password'') (example_state 0)))
       = [FindElements Document (by_xpath ''label=Password'')]
   \<and> fst (findFields example_env Browser (Str ''Password'') (example_state 0)) = Resolved [1]"
  by (simp add: locate_def smartWait_def locate_fn_def findFields_def guessLocator_def
      example_env_def spec_Locator_def example_state_def findElements_on_def
      call_findElements_def example_findElements_def example_page_def issue_def
      async_return_def await_def queries_since_def issued_since_def by_xpath_def)

text \<open>
  C4, amended: for a fuzzy locator \<^verbatim>\<open>_locate\<close> selects no chain. It issues exactly
  one \<^verbatim>\<open>findElements\<close> call, on the root the browser's \<^verbatim>\<open>findElements\<close> is bound
  to, and returns the outcome of that call.
\<close>

theorem locate_fuzzy_single_call:
  assumes "fuzzy (new_Locator E locator)"
    and "fn_root (browser_findElements s) = Some r"
  shows "\<exists>q. queries_since s (snd (locate E locator sw s)) = [FindElements r q]
     \<and> fst (locate E locator sw s) = settle (drv_findElements E r q)"
  using locate_single_query [OF guessLocator_fuzzy [OF assms(1)] assms(2)] by blast

theorem locate_fuzzy_single_call_witness:
  "fuzzy (new_Locator example_env (Str ''Password''))
   \<and> fn_root (browser_findElements (example_state 5000)) = Some Document
   \<and> (\<exists>q. queries_since (example_state 5000)
              (snd (locate example_env (Str ''Password'') True (example_state 5000)))
             = [FindElements Document q]
           \<and> fst (locate example_env (Str ''Password'') True (example_state 5000))
             = settle (drv_findElements example_env Document q))
   \<and> fst (locate example_env (Str ''Password'') True (example_state 5000))
       = Rejected (TypeError ''Invalid locator'')"
proof -
  have h1: "fuzzy (new_Locator example_env (Str ''Password''))"
    by (simp add: example_env_def spec_Locator_def)
  have h2: "fn_root (browser_findElements (example_state 5000)) = Some Document"
    by (simp add: example_state_def)
  have r: "fst (locate example_env (Str ''Password'') True (example_state 5000))
      = Rejected (TypeError ''Invalid locator'')"
    by (simp add: locate_def smartWait_def locate_fn_def guessLocator_def example_env_def
        spec_Locator_def example_state_def findElements_on_def call_findElements_def
        example_findElements_def implicitlyWait_def issue_def async_return_def)
  show ?thesis
    using h1 h2 r locate_fuzzy_single_call [OF h1 h2, of True] by simp
qed

lemma guessLocator_no_method:
  assumes "\<not> fuzzy (new_Locator E locator)" and "ltype (new_Locator E locator) = Some t"
    and "t \<noteq> []" and "\<not> by_has E t"
  shows "guessLocator E locator = Inl (TypeError ''global.by[l.type] is not a function'')"
  using assms by (simp add: guessLocator_def)

lemma locate_guess_throws:
  assumes "guessLocator E locator = Inl e"
  shows "queries_since s (snd (locate E locator sw s)) = []"
    and "fst (locate E locator sw s) = Rejected e"
  using assms
  by (auto simp add: locate_def smartWait_def locate_fn_def async_return_def
        queries_since_def issued_since_def Let_def)

text \<open>
  C9, as the specification states it: for every locator that is not fuzzy, a structured key included,
  \<^verbatim>\<open>_locate\<close> issues exactly one direct query and throws no error. With a driver
  library that has the query methods \<^verbatim>\<open>css\<close>, \<^verbatim>\<open>xpath\<close>, \<^verbatim>\<open>id\<close> and
  \<^verbatim>\<open>name\<close>, the locator \<^verbatim>\<open>{foo: 'bar'}\<close> is not fuzzy and has the type
  \<^verbatim>\<open>foo\<close>; \<^verbatim>\<open>_locate\<close> issues no query for it and is rejected with the
  \<^verbatim>\<open>TypeError\<close> of calling \<^verbatim>\<open>global.by.foo\<close>.
\<close>

theorem locate_custom_key_throws:
  "\<not> fuzzy (new_Locator example_env (Obj ''foo'' ''bar''))
   \<and> ltype (new_Locator example_env (Obj ''foo'' ''bar'')) = Some ''foo''
   \<and> queries_since (example_state 0)
        (snd (locate example_env (Obj ''foo'' ''bar'') False (example_state 0))) = []
   \<and> fst (locate example_env (Obj ''foo'' ''bar'') False (example_state 0))
       = Rejected (TypeError ''global.by[l.type] is not a function'')"
  by (simp add: locate_def smartWait_def locate_fn_def guessLocator_def example_env_def
      spec_Locator_def example_state_def async_return_def queries_since_def issued_since_def)

text \<open>
  C9, amended: for a locator that is not fuzzy and whose type names a query method of the
  driver library (\<^verbatim>\<open>css\<close>, \<^verbatim>\<open>xpath\<close>, \<^verbatim>\<open>id\<close>, \<^verbatim>\<open>name\<close>), \<^verbatim>\<open>_locate\<close>
  issues exactly one query, built from the locator's type and value, and returns the
  list the driver resolves to as it is; an empty list is returned as an empty list. For
  a type the driver library has no method for, no query is issued and \<^verbatim>\<open>_locate\<close> is
  rejected with a \<^verbatim>\<open>TypeError\<close>.
\<close>

theorem locate_direct_query:
  assumes "\<not> fuzzy (new_Locator E locator)"
    and "ltype (new_Locator E locator) = Some t"
    and "t \<noteq> []"
    and "fn_root (browser_findElements s) = Some r"
  shows "(by_has E t
          \<and> drv_findElements E r (Some (By t (Str (lvalue (new_Locator E locator)))))
              = Resolved els
        \<longrightarrow> queries_since s (snd (locate E locator sw s))
              = [FindElements r (Some (By t (Str (lvalue (new_Locator E locator)))))]
            \<and> fst (locate E locator sw s) = Resolved els)
     \<and> (\<not> by_has E t
        \<longrightarrow> queries_since s (snd (locate E locator sw s)) = []
            \<and> fst (locate E locator sw s)
              = Rejected (TypeError ''global.by[l.type] is not a function''))"
proof (intro conjI impI)
  assume a: "by_has E t
      \<and> drv_findElements E r (Some (By t (Str (lvalue (new_Locator E locator)))))
          = Resolved els"
  then have g: "guessLocator E locator
      = Inr (Some (By t (Str (lvalue (new_Locator E locator)))))"
    using assms by (simp add: guessLocator_typed)
  show "queries_since s (snd (locate E locator sw s))
      = [FindElements r (Some (By t (Str (lvalue (new_Locator E locator)))))]"
    using locate_single_query(1) [OF g assms(4)] .
  show "fst (locate E locator sw s) = Resolved els"
    using locate_single_query(2) [OF g assms(4), of sw] a by simp
next
  assume "\<not> by_has E t"
  then have g: "guessLocator E locator
      = Inl (TypeError ''global.by[l.type] is not a function'')"
    using assms by (simp add: guessLocator_no_method)
  show "queries_since s (snd (locate E locator sw s)) = []"
    using locate_guess_throws(1) [OF g] .
  show "fst (locate E locator sw s)
      = Rejected (TypeError ''global.by[l.type] is not a function'')"
    using locate_guess_throws(2) [OF g] .
qed

theorem locate_direct_query_witness:
  "\<not> fuzzy (new_Locator example_env (Str ''#nonexistent''))
   \<and> ltype (new_Locator example_env (Str ''#nonexistent'')) = Some ''css''
   \<and> by_has example_env ''css''
   \<and> queries_since (example_state 5000)
        (snd (locate example_env (Str ''#nonexistent'') True (example_state 5000)))
       = [FindElements Document (Some (By ''css'' (Str ''#nonexistent'')))]
   \<and> fst (locate example_env (Str ''#nonexistent'') True (example_state 5000)) = Resolved []
   \<and> fst (locate example_env (Obj ''name'' ''pwd'') True (example_state 5000)) = Resolved [1]"
proof -
  have h1: "\<not> fuzzy (new_Locator example_env (Str ''#nonexistent''))"
    and h2: "ltype (new_Locator example_env (Str ''#nonexistent'')) = Some ''css''"
    and v: "lvalue (new_Locator example_env (Str ''#nonexistent'')) = ''#nonexistent''"
    by (simp_all add: example_env_def spec_Locator_def)
  have n1: "\<not> fuzzy (new_Locator example_env (Obj ''name'' ''pwd''))"
    and n2: "ltype (new_Locator example_env (Obj ''name'' ''pwd'')) = Some ''name''"
    by (simp_all add: example_env_def spec_Locator_def)
  have h3: "''css'' \<noteq> []" and n3: "''name'' \<noteq> []" by simp_all
  have h4: "by_has example_env ''css''" and n4: "by_has example_env ''name''"
    by (simp_all add: example_env_def)
  have h5: "fn_root (browser_findElements (example_state 5000)) = Some Document"
    by (simp add: example_state_def)
  have h6: "drv_findElements example_env Document
      (Some (By ''css'' (Str (lvalue (new_Locator example_env (Str ''#nonexistent''))))))
      = Resolved []"
    by (simp add: example_env_def spec_Locator_def example_findElements_def example_page_def)
  have n6: "drv_findElements example_env Document
      (Some (By ''name'' (Str (lvalue (new_Locator example_env (Obj ''name'' ''pwd''))))))
      = Resolved [1]"
    by (simp add: example_env_def spec_Locator_def example_findElements_def example_page_def)
  have A: "queries_since (example_state 5000)
        (snd (locate example_env (Str ''#nonexistent'') True (example_state 5000)))
       = [FindElements Document
            (Some (By ''css'' (Str (lvalue (new_Locator example_env (Str ''#nonexistent''))))))]
     \<and> fst (locate example_env (Str ''#nonexistent'') True (example_state 5000)) = Resolved []"
    using locate_direct_query [OF h1 h2 h3 h5, THEN conjunct1, rule_format, of "[]" True]
      h4 h6 by blast
  have B: "fst (locate example_env (Obj ''name'' ''pwd'') True (example_state 5000))
      = Resolved [1]"
    using locate_direct_query [OF n1 n2 n3 h5, THEN conjunct1, rule_format, of "[1]" True]
      n4 n6 by blast
  show ?thesis
    using h1 h2 h4 A B by (simp add: v)
qed

subsection \<open>A scope entry that finds nothing\<close>

text \<open>
  C5, as the specification states it: when no element resolves, \<^verbatim>\<open>_withinBegin\<close> fails with an
  \<^verbatim>\<open>ElementNotFound\<close> error. On the example page \<^verbatim>\<open>_withinBegin('#nonexistent')\<close>
  is rejected with the driver's own error.
\<close>

theorem withinBegin_missing_element_raw_error:
  "fst (withinBegin example_env (Str ''#nonexistent'') (example_state 0))
       = Rejected (DriverError ''NoSuchElementError'' ''no such element'')
   \<and> fst (withinBegin example_env (Str ''#nonexistent'') (example_state 0))
       \<noteq> Rejected (ElementNotFound example_env (Str ''#nonexistent'') None None)
   \<and> fst (withinBegin example_env (Str ''#nonexistent'') (example_state 0))
       \<noteq> Threw (ElementNotFound example_env (Str ''#nonexistent'') None None)"
  by (simp add: withinBegin_def guess_or_css_def guessLocator_def example_env_def
      spec_Locator_def example_state_def findElement_on_def call_findElement_def
      example_findElement_def example_findElements_def example_page_def issue_def
      ElementNotFound_def)

text \<open>
  C5, amended: when the driver's \<^verbatim>\<open>findElement\<close> is rejected for the query of the
  locator (no element resolves), \<^verbatim>\<open>_withinBegin\<close> is rejected with that same error of
  the driver; no \<^verbatim>\<open>ElementNotFound\<close> error is built.
\<close>

theorem withinBegin_passes_driver_error:
  assumes "guess_or_css E locator = Inr q"
    and "fn_root (browser_findElement s) = Some r"
    and "drv_findElement E r q = Rejected e"
  shows "fst (withinBegin E locator s) = Rejected e"
  using assms
  by (simp add: withinBegin_def Let_def findElement_on_def call_findElement_root)

theorem withinBegin_passes_driver_error_witness:
  "guess_or_css example_env (Str ''#nonexistent'') = Inr (Some (By ''css'' (Str ''#nonexistent'')))
   \<and> fn_root (browser_findElement (example_state 0)) = Some Document
   \<and> drv_findElement example_env Document (Some (By ''css'' (Str ''#nonexistent'')))
       = Rejected (DriverError ''NoSuchElementError'' ''no such element'')
   \<and> fst (withinBegin example_env (Str ''#nonexistent'') (example_state 0))
       = Rejected (DriverError ''NoSuchElementError'' ''no such element'')"
proof -
  have h1: "guess_or_css example_env (Str ''#nonexistent'')
      = Inr (Some (By ''css'' (Str ''#nonexistent'')))"
    by (simp add: guess_or_css_def guessLocator_def example_env_def spec_Locator_def)
  have h2: "fn_root (browser_findElement (example_state 0)) = Some Document"
    by (simp add: example_state_def)
  have h3: "drv_findElement example_env Document (Some (By ''css'' (Str ''#nonexistent'')))
      = Rejected (DriverError ''NoSuchElementError'' ''no such element'')"
    by (simp add: example_env_def example_findElement_def example_findElements_def
        example_page_def)
  show ?thesis
    using h1 h2 h3 withinBegin_passes_driver_error [OF h1 h2 h3] by simp
qed

subsection \<open>The chains\<close>

lemma await_resolved [simp]: "await (Resolved v, s) k = k v s"
  by (simp add: await_def)

lemma await_rejected [simp]: "await (Rejected e, s) k = (Rejected e, s)"
  by (simp add: await_def)

lemma await_threw [simp]: "await (Threw e, s) k = (Rejected e, s)"
  by (simp add: await_def)

lemma issue_all_issue: "issue_all cs (issue c s) = issue_all (c # cs) s"
  by (simp add: issue_all_def issue_def)

lemma matcher_root_issue_all [simp]: "matcher_root m (issue_all cs s) = matcher_root m s"
  by (cases m) (simp_all add: issue_all_def)

lemma issue_all_issue_all: "issue_all cs (issue_all ds s) = issue_all (ds @ cs) s"
  by (simp add: issue_all_def)

lemma issue_is_issue_all: "issue c s = issue_all [c] s"
  by (simp add: issue_all_def issue_def)

lemma first_nonempty_at:
  assumes "matcher_root m s = Some r"
    and "k < length qs"
    and "\<forall>j<k. drv_findElements E r (qs ! j) = Resolved []"
    and "drv_findElements E r (qs ! k) = Resolved els"
    and "els \<noteq> [] \<or> Suc k = length qs"
  shows "first_nonempty E m qs s =
     (Resolved els, issue_all (map (FindElements r) (take (Suc k) qs)) s)"
  using assms
proof (induction E m qs s arbitrary: k rule: first_nonempty.induct)
  case (1 E m s)
  then show ?case by simp
next
  case (2 E m q s)
  then show ?case by (simp add: findElements_on_root issue_is_issue_all)
next
  case (3 E m q q' qs s)
  show ?case
  proof (cases k)
    case 0
    with 3 show ?thesis by (simp add: findElements_on_root issue_is_issue_all)
  next
    case (Suc k')
    have q0: "drv_findElements E r q = Resolved []"
      using 3(4) Suc by auto
    have root': "matcher_root m (issue (FindElements r q) s) = Some r"
      using 3(2) by simp
    have rest: "first_nonempty E m (q' # qs) (issue (FindElements r q) s) =
       (Resolved els, issue_all (map (FindElements r) (take (Suc k') (q' # qs)))
          (issue (FindElements r q) s))"
      by (rule 3(1) [of "[]"]) (use 3(3-6) Suc root' in auto)
    show ?thesis
      using 3(2) q0 rest Suc by (simp add: findElements_on_root issue_all_issue)
  qed
qed

lemma findFields_is_chain:
  assumes "fuzzy (new_Locator E locator)"
  shows "findFields E m locator s = first_nonempty E m (field_chain E locator) s"
  using assms by (simp add: findFields_def guessLocator_fuzzy field_chain_def cong: if_cong)

lemma findCheckable_is_chain:
  assumes "fuzzy (new_Locator E locator)"
  shows "findCheckable E m locator s = first_nonempty E m (checkable_chain E locator) s"
  using assms by (simp add: findCheckable_def guessLocator_fuzzy checkable_chain_def cong: if_cong)

lemma length_field_chain [simp]: "length (field_chain E locator) = 4"
  by (simp add: field_chain_def)

lemma length_checkable_chain [simp]: "length (checkable_chain E locator) = 3"
  by (simp add: checkable_chain_def)

lemma findFields_strategy:
  assumes "fuzzy (new_Locator E locator)"
    and "matcher_root m s = Some r"
    and "k < 4"
    and "\<forall>j<k. drv_findElements E r (field_chain E locator ! j) = Resolved []"
    and "drv_findElements E r (field_chain E locator ! k) = Resolved els"
    and "els \<noteq> [] \<or> k = 3"
  shows "findFields E m locator s =
     (Resolved els, issue_all (map (FindElements r) (take (Suc k) (field_chain E locator))) s)"
  unfolding findFields_is_chain [OF assms(1)]
  by (rule first_nonempty_at) (use assms in auto)

lemma findCheckable_strategy:
  assumes "fuzzy (new_Locator E locator)"
    and "matcher_root m s = Some r"
    and "k < 3"
    and "\<forall>j<k. drv_findElements E r (checkable_chain E locator ! j) = Resolved []"
    and "drv_findElements E r (checkable_chain E locator ! k) = Resolved els"
    and "els \<noteq> [] \<or> k = 2"
  shows "findCheckable E m locator s =
     (Resolved els, issue_all (map (FindElements r) (take (Suc k) (checkable_chain E locator))) s)"
  unfolding findCheckable_is_chain [OF assms(1)]
  by (rule first_nonempty_at) (use assms in auto)

lemma findClickable_strategy:
  assumes "fuzzy (new_Locator E locator)"
    and "matcher_root m s = Some r"
    and "k < 2"
    and "\<forall>j<k. drv_findElements E r (clickable_chain E locator ! j) = Resolved []"
    and "drv_findElements E r (clickable_chain E locator ! k) = Resolved (e # rest)"
  shows "findClickable E m locator s =
     (Resolved e, issue_all (map (FindElements r) (take (Suc k) (clickable_chain E locator))) s)"
proof -
  from assms(3) consider "k = 0" | "k = 1" by linarith
  then show ?thesis
  proof cases
    case 1
    with assms show ?thesis
      by (simp add: findClickable_def clickable_chain_def findElements_on_root
          issue_is_issue_all)
  next
    case 2
    with assms show ?thesis
      by (simp add: findClickable_def clickable_chain_def findElements_on_root
          issue_is_issue_all issue_all_issue_all Let_def)
  qed
qed

text \<open>The queries of the chains on the example page.\<close>

lemma example_field_chain:
  "field_chain example_env (Str x) =
     [by_xpath (''label='' @ x), by_xpath (''label~'' @ x), by_xpath (''name='' @ x),
      by_css (Str x)]"
  by (simp add: field_chain_def example_env_def)

lemma example_checkable_chain:
  "checkable_chain example_env (Str x) =
     [by_xpath (''label='' @ x), by_xpath (''name='' @ x), by_css (Str x)]"
  by (simp add: checkable_chain_def example_env_def)

lemma example_drv:
  "drv_findElements example_env r (by_xpath x) = Resolved (example_page (''xpath'', x))"
  "drv_findElements example_env r (by_css (Str x)) = Resolved (example_page (''css'', x))"
  by (simp_all add: example_env_def example_findElements_def by_xpath_def by_css_def)

lemma all_less_2: "(\<forall>j<2. P j) = (P 0 \<and> P (Suc 0))"
  by (auto simp add: less_Suc_eq numeral_2_eq_2)

lemma all_less_3: "(\<forall>j<3. P j) = (P 0 \<and> P (Suc 0) \<and> P 2)"
  by (auto simp add: less_Suc_eq numeral_3_eq_3 numeral_2_eq_2)

lemma all_less_1: "(\<forall>j<Suc 0. P j) = P 0"
  by auto

text \<open>
  C6. For a fuzzy locator \<^verbatim>\<open>findFields\<close> tries the queries of \<open>field_chain\<close> in
  their order: label equal to the text, label containing the text, name equal to the
  text, the text as a CSS selector. When the first \<open>k\<close> of them find nothing and the next
  finds a list that is not empty (or is the last of the four), that list is the result,
  and the queries issued are exactly those up to that one: no later query is sent.
\<close>

theorem findFields_first_nonempty_wins:
  assumes "fuzzy (new_Locator E locator)"
    and "matcher_root m s = Some r"
    and "k < 4"
    and "\<forall>j<k. drv_findElements E r (field_chain E locator ! j) = Resolved []"
    and "drv_findElements E r (field_chain E locator ! k) = Resolved els"
    and "els \<noteq> [] \<or> k = 3"
  shows "findFields E m locator s =
     (Resolved els, issue_all (map (FindElements r) (take (Suc k) (field_chain E locator))) s)"
  using assms by (rule findFields_strategy)

theorem findFields_first_nonempty_wins_witness:
  "fuzzy (new_Locator example_env (Str ''agree''))
   \<and> matcher_root Browser (example_state 0) = Some Document
   \<and> findFields example_env Browser (Str ''agree'') (example_state 0) =
      (Resolved [2, 3],
       issue_all [FindElements Document (by_xpath ''label=agree''),
                  FindElements Document (by_xpath ''label~agree''),
                  FindElements Document (by_xpath ''name=agree'')] (example_state 0))"
proof -
  have h1: "fuzzy (new_Locator example_env (Str ''agree''))"
    by (simp add: example_env_def spec_Locator_def)
  have h2: "matcher_root Browser (example_state 0) = Some Document"
    by (simp add: example_state_def)
  have h3: "(2::nat) < 4" by simp
  have h4: "\<forall>j<2. drv_findElements example_env Document
      (field_chain example_env (Str ''agree'') ! j) = Resolved []"
    by (simp add: all_less_2 example_field_chain example_drv example_page_def)
  have h5: "drv_findElements example_env Document
      (field_chain example_env (Str ''agree'') ! 2) = Resolved [2, 3]"
    by (simp add: example_field_chain example_drv example_page_def)
  have h6: "[2, 3] \<noteq> ([]::elem list) \<or> (2::nat) = 3" by simp
  show ?thesis
    using h1 h2 findFields_first_nonempty_wins [OF h1 h2 h3 h4 h5 h6]
    by (simp add: example_field_chain numeral_3_eq_3)
qed


subsection \<open>Filling a field\<close>

text \<open>
  C10. When the field resolves to no element, \<^verbatim>\<open>fillField\<close> fails with the
  \<^verbatim>\<open>TypeError\<close> of reading \<^verbatim>\<open>clear\<close> of \<^verbatim>\<open>els[0]\<close>, which is
  \<^verbatim>\<open>undefined\<close>, and never with an \<^verbatim>\<open>ElementNotFound\<close> error, whatever prefix
  and suffix; \<^verbatim>\<open>appendField\<close> and \<^verbatim>\<open>clearField\<close> fail with the
  \<^verbatim>\<open>ElementNotFound\<close> error of their existence assertion.
\<close>

theorem fillField_no_existence_check:
  assumes "findFields E Browser field s = (Resolved [], s1)"
  shows "fillField E field v s =
       (Rejected (TypeError ''Cannot read property clear of undefined''), s1)
     \<and> (\<forall>p q. fst (fillField E field v s) \<noteq> Rejected (ElementNotFound E field p q))
     \<and> appendField E field v s = (Rejected (ElementNotFound E field (Some ''Field'') None), s1)
     \<and> clearField E field s = (Rejected (ElementNotFound E field (Some ''Field'') None), s1)"
  using assms
  by (simp add: fillField_def appendField_def clearField_def assertElementExists_def
      ElementNotFound_def)

theorem fillField_no_existence_check_witness:
  "fst (findFields example_env Browser (Str ''nothing'') (example_state 0)) = Resolved []
   \<and> fst (fillField example_env (Str ''nothing'') ''secret'' (example_state 0))
       = Rejected (TypeError ''Cannot read property clear of undefined'')
   \<and> fst (appendField example_env (Str ''nothing'') ''secret'' (example_state 0))
       = Rejected (Error ''Field nothing was not found by text|CSS|XPath'')
   \<and> fst (clearField example_env (Str ''nothing'') (example_state 0))
       = Rejected (Error ''Field nothing was not found by text|CSS|XPath'')"
proof -
  have a: "fuzzy (new_Locator example_env (Str ''nothing''))"
    by (simp add: example_env_def spec_Locator_def)
  have r: "matcher_root Browser (example_state 0) = Some Document"
    by (simp add: example_state_def)
  have f: "fst (findFields example_env Browser (Str ''nothing'') (example_state 0)) = Resolved []"
  proof -
    have p: "\<forall>j<3. drv_findElements example_env Document
        (field_chain example_env (Str ''nothing'') ! j) = Resolved []"
      by (simp add: all_less_3 example_field_chain example_drv example_page_def)
    have q: "drv_findElements example_env Document
        (field_chain example_env (Str ''nothing'') ! 3) = Resolved []"
      by (simp add: example_field_chain example_drv example_page_def numeral_3_eq_3)
    show ?thesis
      using findFields_strategy [OF a r _ p q] by simp
  qed
  have h: "findFields example_env Browser (Str ''nothing'') (example_state 0) =
      (Resolved [], snd (findFields example_env Browser (Str ''nothing'') (example_state 0)))"
    using f by (simp add: prod_eq_iff)
  have e: "ElementNotFound example_env (Str ''nothing'') (Some ''Field'') None
      = Error ''Field nothing was not found by text|CSS|XPath''"
    by (simp add: ElementNotFound_def example_env_def spec_Locator_def)
  show ?thesis
    using f fillField_no_existence_check [OF h, of "''secret''"] by (simp add: e)
qed


subsection \<open>Checkbox state\<close>

lemma forEach_isSelected_resolved:
  assumes "\<forall>e\<in>set els. drv_isSelected E e = Resolved (sel e)"
  shows "forEach_isSelected E els s =
     (Inr (map (\<lambda>e. Resolved (sel e)) els), issue_all (map IsSelected els) s)"
  using assms
proof (induction els arbitrary: s)
  case Nil
  then show ?case by (simp add: issue_all_def)
next
  case (Cons el els)
  then show ?case by (simp add: issue_all_issue)
qed

lemma promise_all_resolved: "promise_all (map (\<lambda>e. Resolved (f e)) els) = Resolved (map f els)"
  by (induction els) simp_all

lemma foldl_or: "foldl (\<lambda>prev cur. prev \<or> cur) v vs = (v \<or> (\<exists>x\<in>set vs. x))"
  by (induction vs arbitrary: v) auto

lemma reduce_or_nonempty:
  assumes "vs \<noteq> []"
  shows "reduce_or vs = Inr (\<exists>x\<in>set vs. x)"
  using assms by (cases vs) (auto simp add: foldl_or)

lemma proceedIsChecked_resolved:
  assumes "findCheckable E Browser field s = (Resolved els, s1)"
    and "els \<noteq> []"
    and "\<forall>e\<in>set els. drv_isSelected E e = Resolved (sel e)"
  shows "proceedIsChecked E a field s =
     (case truth (''checkable '' @ js_string field) ''to be checked'' a (\<exists>e\<in>set els. sel e) of
        Inl e \<Rightarrow> Rejected e | Inr u \<Rightarrow> Resolved (),
      issue_all (map IsSelected els) s1)"
proof -
  have nonempty: "map sel els \<noteq> []"
    using assms(2) by simp
  have any: "(\<exists>x\<in>set (map sel els). x) = (\<exists>e\<in>set els. sel e)"
    by auto
  show ?thesis
    using assms(1,2)
    by (simp add: proceedIsChecked_def assertElementExists_def
        forEach_isSelected_resolved [OF assms(3)] promise_all_resolved
        reduce_or_nonempty [OF nonempty] any split: sum.splits)
qed

text \<open>
  C8. When the checkable locator resolves to a list of elements that is not empty, and
  every element answers the \<^verbatim>\<open>isSelected\<close> query with its state \<open>sel e\<close>,
  \<^verbatim>\<open>seeCheckboxIsChecked\<close> succeeds exactly when at least one of the matched elements
  is selected.
\<close>

theorem seeCheckboxIsChecked_any_selected:
  assumes "findCheckable E Browser field s = (Resolved els, s1)"
    and "els \<noteq> []"
    and "\<forall>e\<in>set els. drv_isSelected E e = Resolved (sel e)"
  shows "(fst (seeCheckboxIsChecked E field s) = Resolved ()) = (\<exists>e\<in>set els. sel e)"
  by (simp add: seeCheckboxIsChecked_def async_return_def proceedIsChecked_resolved [OF assms]
      truth_def)

theorem seeCheckboxIsChecked_any_selected_witness:
  "fst (findCheckable example_env Browser (Str ''agree'') (example_state 0)) = Resolved [2, 3]
   \<and> drv_isSelected example_env 2 = Resolved True
   \<and> drv_isSelected example_env 3 = Resolved False
   \<and> fst (seeCheckboxIsChecked example_env (Str ''agree'') (example_state 0)) = Resolved ()"
proof -
  have a: "fuzzy (new_Locator example_env (Str ''agree''))"
    by (simp add: example_env_def spec_Locator_def)
  have r: "matcher_root Browser (example_state 0) = Some Document"
    by (simp add: example_state_def)
  have p: "\<forall>j<1. drv_findElements example_env Document
      (checkable_chain example_env (Str ''agree'') ! j) = Resolved []"
    by (simp add: example_checkable_chain example_drv example_page_def)
  have q: "drv_findElements example_env Document
      (checkable_chain example_env (Str ''agree'') ! 1) = Resolved [2, 3]"
    by (simp add: example_checkable_chain example_drv example_page_def)
  have f: "fst (findCheckable example_env Browser (Str ''agree'') (example_state 0))
      = Resolved [2, 3]"
    using findCheckable_strategy [OF a r _ p q] by simp
  have h1: "findCheckable example_env Browser (Str ''agree'') (example_state 0) =
      (Resolved [2, 3],
       snd (findCheckable example_env Browser (Str ''agree'') (example_state 0)))"
    using f by (simp add: prod_eq_iff)
  have h2: "[2, 3] \<noteq> ([]::elem list)" by simp
  have h3: "\<forall>e\<in>set [2, 3]. drv_isSelected example_env e = Resolved (e = 2)"
    by (simp add: example_env_def)
  have d: "drv_isSelected example_env 2 = Resolved True"
    "drv_isSelected example_env 3 = Resolved False"
    by (simp_all add: example_env_def)
  show ?thesis
    using f d seeCheckboxIsChecked_any_selected [OF h1 h2 h3] by simp
qed

subsection \<open>What the chains hand back\<close>

lemma matcher_el_root_issue_all [simp]:
  "matcher_el_root m (issue_all cs s) = matcher_el_root m s"
  by (cases m) (simp_all add: issue_all_def)

lemma findElement_on_root:
  assumes "matcher_el_root m s = Some r"
  shows "findElement_on E m q s = (drv_findElement E r q, issue (FindElement r q) s)"
  using assms by (cases m) (simp_all add: findElement_on_def call_findElement_root)

lemma findClickable_css_fallback:
  assumes "fuzzy (new_Locator E locator)"
    and "matcher_root m s = Some r"
    and "matcher_el_root m s = Some r'"
    and "\<forall>j<2. drv_findElements E r (clickable_chain E locator ! j) = Resolved []"
  shows "findClickable E m locator s =
     (settle (drv_findElement E r' (clickable_chain E locator ! 2)),
      issue_all [FindElements r (clickable_chain E locator ! 0),
                 FindElements r (clickable_chain E locator ! 1),
                 FindElement r' (clickable_chain E locator ! 2)] s)"
  using assms
  by (simp add: findClickable_def clickable_chain_def findElements_on_root findElement_on_root
      issue_is_issue_all issue_all_issue_all Let_def all_less_2 async_return_def)

lemma forEach_getText_resolved:
  assumes "\<forall>e\<in>set els. drv_getText E e = Resolved (text_of e)"
  shows "forEach_getText E els s =
     (Inr (map (\<lambda>e. Resolved (text_of e)) els), issue_all (map GetText els) s)"
  using assms
proof (induction els arbitrary: s)
  case Nil
  then show ?case by (simp add: issue_all_def)
next
  case (Cons el els)
  then show ?case by (simp add: issue_all_issue)
qed

lemma smartWait_findElements_resolved:
  assumes "matcher_root Browser s = Some r"
    and "drv_findElements E r q = Resolved els"
  shows "fst (smartWait (findElements_on E Browser q) en s) = Resolved els"
  using assms
  by (simp add: smartWait_def findElements_on_def call_findElements_root async_return_def
      Let_def)

lemma see_locator_fuzzy_context:
  assumes "fuzzy (new_Locator E c)" and "js_truthy c"
  shows "see_locator E (Some c) s = Inr (by_css c)"
    and "see_description E (Some c) s = ''element '' @ Locator_toString E (new_Locator E c)"
  using assms
  by (simp_all add: see_locator_def see_description_def guess_or_css_def guessLocator_fuzzy
      by_css_def)

lemma proceedSee_all_texts:
  assumes "see_locator E context s = Inr q"
    and "matcher_root Browser s = Some r"
    and "drv_findElements E r q = Resolved els"
    and "\<forall>e\<in>set els. drv_getText E e = Resolved (text_of e)"
  shows "fst (proceedSee E a text context s) =
     (case stringIncludes (see_description E context s) a text (see_source (map text_of els)) of
        Inl e \<Rightarrow> Rejected e
      | Inr u \<Rightarrow> Resolved ())"
proof -
  obtain s' where w: "smartWait (findElements_on E Browser q)
      (js_truthy (cur_context s) \<and> a = Assert) s = (Resolved els, s')"
    using smartWait_findElements_resolved [OF assms(2,3)]
    by (metis prod.collapse)
  show ?thesis
    by (simp add: proceedSee_def assms(1) w forEach_getText_resolved [OF assms(4)]
        promise_all_resolved Let_def split: sum.splits)
qed

text \<open>
  C7, as the specification states it: every chain, the clickable one included, returns the whole result set
  of its first successful strategy. On the example page the first clickable strategy
  matches the two \<^verbatim>\<open>Save\<close> buttons, and \<^verbatim>\<open>findClickable\<close> returns the first of
  them only.
\<close>

theorem findClickable_returns_one_element:
  "fuzzy (new_Locator example_env (Str ''Save''))
   \<and> drv_findElements example_env Document (clickable_chain example_env (Str ''Save'') ! 0)
       = Resolved [4, 5]
   \<and> fst (findClickable example_env Browser (Str ''Save'') (example_state 0)) = Resolved 4
   \<and> (case fst (findClickable example_env Browser (Str ''Save'') (example_state 0)) of
         Resolved e \<Rightarrow> [e] | Rejected x \<Rightarrow> [] | Threw x \<Rightarrow> []) \<noteq> [4, 5]"
  by (simp add: findClickable_def clickable_chain_def example_env_def spec_Locator_def
      example_state_def findElements_on_def call_findElements_def example_findElements_def
      example_page_def by_xpath_def)

text \<open>
  C7, amended: for a fuzzy locator the field chain and the checkable chain return the
  whole result set of their first successful strategy, never narrowed; the containment
  check, given the locator as a context that is not empty, reads the text of every
  element its query matches and compares the text sought with all of them put together;
  the clickable chain returns one element: the first element \<^verbatim>\<open>els[0]\<close> of the result
  set of its first successful XPath strategy or, when both XPath strategies find
  nothing, the element the driver's \<^verbatim>\<open>findElement\<close> gives for the CSS fallback.
\<close>

theorem chain_results:
  assumes "fuzzy (new_Locator E locator)"
    and "matcher_root m s = Some r"
  shows "(\<forall>k els. k < 4
            \<and> (\<forall>j<k. drv_findElements E r (field_chain E locator ! j) = Resolved [])
            \<and> drv_findElements E r (field_chain E locator ! k) = Resolved els \<and> els \<noteq> []
          \<longrightarrow> fst (findFields E m locator s) = Resolved els)
     \<and> (\<forall>k els. k < 3
            \<and> (\<forall>j<k. drv_findElements E r (checkable_chain E locator ! j) = Resolved [])
            \<and> drv_findElements E r (checkable_chain E locator ! k) = Resolved els \<and> els \<noteq> []
          \<longrightarrow> fst (findCheckable E m locator s) = Resolved els)
     \<and> (\<forall>rb els text_of a text. matcher_root Browser s = Some rb \<and> js_truthy locator
            \<and> drv_findElements E rb (by_css locator) = Resolved els
            \<and> (\<forall>e\<in>set els. drv_getText E e = Resolved (text_of e))
          \<longrightarrow> fst (proceedSee E a text (Some locator) s) =
              (case stringIncludes (''element '' @ Locator_toString E (new_Locator E locator))
                      a text (see_source (map text_of els)) of
                 Inl e \<Rightarrow> Rejected e
               | Inr u \<Rightarrow> Resolved ()))
     \<and> (\<forall>k e rest. k < 2
            \<and> (\<forall>j<k. drv_findElements E r (clickable_chain E locator ! j) = Resolved [])
            \<and> drv_findElements E r (clickable_chain E locator ! k) = Resolved (e # rest)
          \<longrightarrow> fst (findClickable E m locator s) = Resolved e)
     \<and> (\<forall>r' e. matcher_el_root m s = Some r'
            \<and> (\<forall>j<2. drv_findElements E r (clickable_chain E locator ! j) = Resolved [])
            \<and> drv_findElement E r' (clickable_chain E locator ! 2) = Resolved e
          \<longrightarrow> fst (findClickable E m locator s) = Resolved e)"
proof (intro conjI allI impI)
  fix k els
  assume "k < 4
      \<and> (\<forall>j<k. drv_findElements E r (field_chain E locator ! j) = Resolved [])
      \<and> drv_findElements E r (field_chain E locator ! k) = Resolved els \<and> els \<noteq> []"
  then show "fst (findFields E m locator s) = Resolved els"
    using findFields_strategy [OF assms, of k els] by simp
next
  fix k els
  assume "k < 3
      \<and> (\<forall>j<k. drv_findElements E r (checkable_chain E locator ! j) = Resolved [])
      \<and> drv_findElements E r (checkable_chain E locator ! k) = Resolved els \<and> els \<noteq> []"
  then show "fst (findCheckable E m locator s) = Resolved els"
    using findCheckable_strategy [OF assms, of k els] by simp
next
  fix rb els text_of a tx
  assume h: "matcher_root Browser s = Some rb \<and> js_truthy locator
      \<and> drv_findElements E rb (by_css locator) = Resolved els
      \<and> (\<forall>e\<in>set els. drv_getText E e = Resolved (text_of e))"
  have q: "see_locator E (Some locator) s = Inr (by_css locator)"
    and d: "see_description E (Some locator) s
        = ''element '' @ Locator_toString E (new_Locator E locator)"
    using see_locator_fuzzy_context [OF assms(1)] h by simp_all
  show "fst (proceedSee E a tx (Some locator) s) =
      (case stringIncludes (''element '' @ Locator_toString E (new_Locator E locator))
              a tx (see_source (map text_of els)) of
         Inl e \<Rightarrow> Rejected e
       | Inr u \<Rightarrow> Resolved ())"
    using proceedSee_all_texts [OF q, of rb els text_of a tx] h by (simp add: d)
next
  fix k e rest
  assume "k < 2
      \<and> (\<forall>j<k. drv_findElements E r (clickable_chain E locator ! j) = Resolved [])
      \<and> drv_findElements E r (clickable_chain E locator ! k) = Resolved (e # rest)"
  then show "fst (findClickable E m locator s) = Resolved e"
    using findClickable_strategy [OF assms, of k e rest] by simp
next
  fix r' e
  assume "matcher_el_root m s = Some r'
      \<and> (\<forall>j<2. drv_findElements E r (clickable_chain E locator ! j) = Resolved [])
      \<and> drv_findElement E r' (clickable_chain E locator ! 2) = Resolved e"
  then show "fst (findClickable E m locator s) = Resolved e"
    using findClickable_css_fallback [OF assms, of r'] by simp
qed

theorem chain_results_witness:
  "fuzzy (new_Locator example_env (Str ''agree''))
   \<and> fuzzy (new_Locator example_env (Str ''Save''))
   \<and> fuzzy (new_Locator example_env (Str ''button''))
   \<and> fuzzy (new_Locator example_env (Str ''a''))
   \<and> matcher_root Browser (example_state 0) = Some Document
   \<and> fst (findFields example_env Browser (Str ''agree'') (example_state 0)) = Resolved [2, 3]
   \<and> fst (findCheckable example_env Browser (Str ''agree'') (example_state 0)) = Resolved [2, 3]
   \<and> fst (proceedSee example_env Assert ''Help'' (Some (Str ''a'')) (example_state 0))
       = Resolved ()
   \<and> fst (findClickable example_env Browser (Str ''Save'') (example_state 0)) = Resolved 4
   \<and> fst (findClickable example_env Browser (Str ''button'') (example_state 0)) = Resolved 4"
proof -
  have a: "fuzzy (new_Locator example_env (Str ''agree''))"
    and b: "fuzzy (new_Locator example_env (Str ''Save''))"
    and c: "fuzzy (new_Locator example_env (Str ''button''))"
    and d: "fuzzy (new_Locator example_env (Str ''a''))"
    by (simp_all add: example_env_def spec_Locator_def)
  have r: "matcher_root Browser (example_state 0) = Some Document"
    and r': "matcher_el_root Browser (example_state 0) = Some Document"
    by (simp_all add: example_state_def)
  note A = chain_results [OF a r]
  note B = chain_results [OF b r]
  note C = chain_results [OF c r]
  note D = chain_results [OF d r]
  have f: "(2::nat) < 4
      \<and> (\<forall>j<2. drv_findElements example_env Document
             (field_chain example_env (Str ''agree'') ! j) = Resolved [])
      \<and> drv_findElements example_env Document
             (field_chain example_env (Str ''agree'') ! 2) = Resolved [2, 3]
      \<and> [2, 3] \<noteq> ([]::elem list)"
    by (simp add: all_less_2 example_field_chain example_drv example_page_def)
  have ch: "(1::nat) < 3
      \<and> (\<forall>j<1. drv_findElements example_env Document
             (checkable_chain example_env (Str ''agree'') ! j) = Resolved [])
      \<and> drv_findElements example_env Document
             (checkable_chain example_env (Str ''agree'') ! 1) = Resolved [2, 3]
      \<and> [2, 3] \<noteq> ([]::elem list)"
    by (simp add: example_checkable_chain example_drv example_page_def)
  have se: "matcher_root Browser (example_state 0) = Some Document \<and> js_truthy (Str ''a'')
      \<and> drv_findElements example_env Document (by_css (Str ''a'')) = Resolved [6, 7]
      \<and> (\<forall>e\<in>set [6, 7]. drv_getText example_env e
            = Resolved (if e = 6 then ''Home'' else ''Help''))"
    by (simp add: example_state_def example_drv example_page_def) (simp add: example_env_def)
  have k: "(0::nat) < 2
      \<and> (\<forall>j<0. drv_findElements example_env Document
             (clickable_chain example_env (Str ''Save'') ! j) = Resolved [])
      \<and> drv_findElements example_env Document
             (clickable_chain example_env (Str ''Save'') ! 0) = Resolved (4 # [5])"
    by (simp add: clickable_chain_def example_env_def spec_Locator_def
        example_findElements_def example_page_def by_xpath_def)
  have cc: "clickable_chain example_env (Str ''button'') =
      [by_xpath ''narrow=button'', by_xpath ''wide=button'', by_css (Str ''button'')]"
    by (simp add: clickable_chain_def example_env_def spec_Locator_def)
  have fb: "matcher_el_root Browser (example_state 0) = Some Document
      \<and> (\<forall>j<2. drv_findElements example_env Document
             (clickable_chain example_env (Str ''button'') ! j) = Resolved [])
      \<and> drv_findElement example_env Document
             (clickable_chain example_env (Str ''button'') ! 2) = Resolved 4"
    by (simp add: example_state_def cc all_less_2 example_drv example_page_def)
      (simp add: example_env_def example_findElement_def example_findElements_def
        example_page_def by_css_def)
  have 1: "fst (findFields example_env Browser (Str ''agree'') (example_state 0))
      = Resolved [2, 3]"
    using A [THEN conjunct1, rule_format, OF f] .
  have 2: "fst (findCheckable example_env Browser (Str ''agree'') (example_state 0))
      = Resolved [2, 3]"
    using A [THEN conjunct2, THEN conjunct1, rule_format, OF ch] .
  have 3: "fst (proceedSee example_env Assert ''Help'' (Some (Str ''a'')) (example_state 0))
      = Resolved ()"
    using D [THEN conjunct2, THEN conjunct2, THEN conjunct1, rule_format, OF se,
        of Assert "''Help''"]
    by (simp add: stringIncludes_def see_source_def)
  have 4: "fst (findClickable example_env Browser (Str ''Save'') (example_state 0))
      = Resolved 4"
    using B [THEN conjunct2, THEN conjunct2, THEN conjunct2, THEN conjunct1, rule_format, OF k] .
  have 5: "fst (findClickable example_env Browser (Str ''button'') (example_state 0))
      = Resolved 4"
    using C [THEN conjunct2, THEN conjunct2, THEN conjunct2, THEN conjunct2, rule_format, OF fb] .
  show ?thesis using a b c d r 1 2 3 4 5 by simp
qed


end
